theory Spec2Isabelle
  imports Complex_Main "HOL-Library.AList"
begin

section \<open>Figure objects of the charting engine\<close>

text \<open>
  The library under verification (\<^verbatim>\<open>src/plot/functions.py\<close>) is a thin layer over plotly.
  A plotly figure holds its properties as nested dictionaries; a property value is a
  Python literal, a list or a dictionary. Dictionaries are association lists in
  insertion order, as Python dictionaries are. The library only passes numbers on, so a
  float literal such as \<^verbatim>\<open>2.4\<close> is kept as the decimal fraction it is written as.
\<close>

datatype pval =
    PNone
  | PBool bool
  | PInt int
  | PFloat rat
  | PStr string
  | PList "pval list"
  | PDict "(string \<times> pval) list"

type_synonym props = "(string \<times> pval) list"

text \<open>A figure: its traces (\<^verbatim>\<open>fig.data\<close>) and its layout (\<^verbatim>\<open>fig.layout\<close>).\<close>

record figure =
  fig_data :: "props list"
  fig_layout :: props

text \<open>
  \<^verbatim>\<open>plotly_obj[key]\<close> for a compound property: the object stored under the key, an empty
  one when the property is unset.
\<close>

definition compound :: "props \<Rightarrow> string \<Rightarrow> props" where
  "compound obj k = (case map_of obj k of Some (PDict d) \<Rightarrow> d | _ \<Rightarrow> [])"

text \<open>
  plotly's \<^verbatim>\<open>BaseFigure._perform_update(plotly_obj, update_obj)\<close>, which every
  \<^verbatim>\<open>update_*\<close> method ends in: for each key of the update, in order, a dictionary is
  merged recursively into the compound property of that name, \<^verbatim>\<open>None\<close> unsets the
  property, and any other value is assigned.
\<close>

fun perform_update :: "props \<Rightarrow> props \<Rightarrow> props" where
  "perform_update obj [] = obj"
| "perform_update obj ((k, PDict d) # upd) =
     perform_update (AList.update k (PDict (perform_update (compound obj k) d)) obj) upd"
| "perform_update obj ((k, PNone) # upd) = perform_update (AList.delete k obj) upd"
| "perform_update obj ((k, v) # upd) = perform_update (AList.update k v obj) upd"

text \<open>
  The axis objects of a layout are stored under \<^verbatim>\<open>xaxis\<close>, \<^verbatim>\<open>xaxis2\<close>, \<^verbatim>\<open>xaxis3\<close>, ...
  (and likewise for \<^verbatim>\<open>yaxis\<close>): the prefix followed by digits.
\<close>

definition is_digit :: "char \<Rightarrow> bool" where
  "is_digit c = (c \<in> set ''0123456789'')"

definition is_axis_key :: "string \<Rightarrow> string \<Rightarrow> bool" where
  "is_axis_key prefix k =
     (take (length prefix) k = prefix \<and> list_all is_digit (drop (length prefix) k))"

text \<open>
  \<^verbatim>\<open>fig.select_xaxes()\<close> / \<^verbatim>\<open>fig.select_yaxes()\<close> with no selector: the first axis, which
  every layout has (it is created empty on access), then the numbered axes the layout
  holds.
\<close>

definition select_axes :: "string \<Rightarrow> props \<Rightarrow> string list" where
  "select_axes prefix lay =
     prefix # filter (\<lambda>k. k \<noteq> prefix \<and> is_axis_key prefix k) (map fst lay)"

text \<open>\<^verbatim>\<open>for obj in fig.select_*axes(): obj.update(**kwargs)\<close>\<close>

definition update_axes :: "string \<Rightarrow> props \<Rightarrow> props \<Rightarrow> props" where
  "update_axes prefix lay kw =
     fold (\<lambda>k l. AList.update k (PDict (perform_update (compound l k) kw)) l)
       (select_axes prefix lay) lay"

text \<open>Reading a property by its path, as \<^verbatim>\<open>fig.layout.font.family\<close> does.\<close>

fun get_path :: "props \<Rightarrow> string list \<Rightarrow> pval option" where
  "get_path obj [] = Some (PDict obj)"
| "get_path obj [k] = map_of obj k"
| "get_path obj (k # ks) =
     (case map_of obj k of Some (PDict d) \<Rightarrow> get_path d ks | _ \<Rightarrow> None)"

subsection \<open>Figures as objects\<close>

text \<open>
  Figures are mutable objects and the \<^verbatim>\<open>update_*\<close> methods mutate them in place, so the
  model keeps them in a store: a reference is an index into the list of live objects,
  and a method returns the store it leaves.
\<close>

type_synonym ref = nat
type_synonym heap = "figure list"

text \<open>
  plotly's \<^verbatim>\<open>BaseFigure._initialize_layout_template\<close>, which the figure constructor
  runs: a layout without a template gets the default template of the engine,
  \<^verbatim>\<open>pio.templates.default\<close>, unless there is none. The default template is a setting of
  the engine and a parameter here.
\<close>

definition initialize_layout_template :: "props option \<Rightarrow> props \<Rightarrow> props" where
  "initialize_layout_template tmpl lay =
     (if map_of lay ''template'' = None \<or> map_of lay ''template'' = Some PNone then
        (case tmpl of None \<Rightarrow> lay | Some t \<Rightarrow> AList.update ''template'' (PDict t) lay)
      else lay)"

text \<open>
  \<^verbatim>\<open>go.Figure(fig)\<close>: plotly's constructor, given a figure, builds a new figure object
  from deep copies of the argument's traces and layout and initializes the layout
  template. An argument is a live object, a reference below the length of the store.
\<close>

definition go_Figure :: "props option \<Rightarrow> heap \<Rightarrow> ref \<Rightarrow> heap \<times> ref" where
  "go_Figure tmpl h fig =
     (h @ [(h ! fig)\<lparr>fig_layout := initialize_layout_template tmpl (fig_layout (h ! fig))\<rparr>],
      length h)"

definition update_layout :: "heap \<Rightarrow> ref \<Rightarrow> props \<Rightarrow> heap" where
  "update_layout h r kw =
     h[r := (h ! r)\<lparr>fig_layout := perform_update (fig_layout (h ! r)) kw\<rparr>]"

definition update_yaxes :: "heap \<Rightarrow> ref \<Rightarrow> props \<Rightarrow> heap" where
  "update_yaxes h r kw =
     h[r := (h ! r)\<lparr>fig_layout := update_axes ''yaxis'' (fig_layout (h ! r)) kw\<rparr>]"

definition update_xaxes :: "heap \<Rightarrow> ref \<Rightarrow> props \<Rightarrow> heap" where
  "update_xaxes h r kw =
     h[r := (h ! r)\<lparr>fig_layout := update_axes ''xaxis'' (fig_layout (h ! r)) kw\<rparr>]"

section \<open>\<^verbatim>\<open>style_to_matplotlib\<close>\<close>

text \<open>
  The local \<^verbatim>\<open>font_dict\<close>, the literal \<^verbatim>\<open>dict(r=20, t=20, b=10)\<close>, and the keyword
  arguments of the calls of \<^verbatim>\<open>update_layout\<close>, \<^verbatim>\<open>update_yaxes\<close> and \<^verbatim>\<open>update_xaxes\<close>, in
  the order the source gives them.
\<close>

definition font_dict :: props where
  "font_dict = [(''family'', PStr ''Arial''), (''size'', PInt 26), (''color'', PStr ''black'')]"

definition margin_dict :: props where
  "margin_dict = [(''r'', PInt 20), (''t'', PInt 20), (''b'', PInt 10)]"

definition layout_kwargs :: props where
  "layout_kwargs =
     [(''font'', PDict font_dict),
      (''plot_bgcolor'', PStr ''white''),
      (''width'', PInt 850),
      (''height'', PInt 700),
      (''margin'', PDict margin_dict)]"

definition yaxes_kwargs :: props where
  "yaxes_kwargs =
     [(''showline'', PBool True),
      (''linecolor'', PStr ''black''),
      (''linewidth'', PFloat 2.4),
      (''ticks'', PStr ''outside''),
      (''tickfont'', PDict font_dict),
      (''mirror'', PStr ''allticks''),
      (''tickwidth'', PFloat 2.4),
      (''tickcolor'', PStr ''black'')]"

definition xaxes_kwargs :: props where
  "xaxes_kwargs =
     [(''showline'', PBool True),
      (''showticklabels'', PBool True),
      (''linecolor'', PStr ''black''),
      (''linewidth'', PFloat 2.4),
      (''ticks'', PStr ''outside''),
      (''tickfont'', PDict font_dict),
      (''mirror'', PStr ''allticks''),
      (''tickwidth'', PFloat 2.4),
      (''tickcolor'', PStr ''black'')]"

text \<open>
  \<^verbatim>\<open>style_to_matplotlib(fig)\<close>: copy-construct, restyle the copy in place with the three
  updates, return the copy. The parameter \<open>tmpl\<close> is the engine's default template.
\<close>

definition style_to_matplotlib :: "props option \<Rightarrow> heap \<Rightarrow> ref \<Rightarrow> heap \<times> ref" where
  "style_to_matplotlib tmpl h fig =
     (let (h1, fig_styled) = go_Figure tmpl h fig;
          h2 = update_layout h1 fig_styled layout_kwargs;
          h3 = update_yaxes h2 fig_styled yaxes_kwargs;
          h4 = update_xaxes h3 fig_styled xaxes_kwargs
      in (h4, fig_styled))"

subsection \<open>Auxiliary notions for the proofs\<close>

text \<open>The three updates of \<^verbatim>\<open>style_to_matplotlib\<close>, applied to a layout.\<close>

definition themed :: "props \<Rightarrow> props" where
  "themed lay =
     update_axes ''xaxis''
       (update_axes ''yaxis'' (perform_update lay layout_kwargs) yaxes_kwargs) xaxes_kwargs"

text \<open>
  An update entry is absorbed by an object when assigning it changes nothing; an update
  is settled in an object when all its entries are.
\<close>

fun absorbed :: "props \<Rightarrow> string \<times> pval \<Rightarrow> bool" where
  "absorbed obj (k, PDict d) =
     (perform_update (compound obj k) d = compound obj k \<and>
      map_of obj k = Some (PDict (compound obj k)))"
| "absorbed obj (k, PNone) = (k \<notin> fst ` set obj)"
| "absorbed obj (k, v) = (map_of obj k = Some v)"

definition settled :: "props \<Rightarrow> props \<Rightarrow> bool" where
  "settled obj kw = (\<forall>kv \<in> set kw. absorbed obj kv)"

text \<open>One step of the loop over the selected axes.\<close>

abbreviation axis_step :: "props \<Rightarrow> string \<Rightarrow> props \<Rightarrow> props" where
  "axis_step kw \<equiv> (\<lambda>k l. AList.update k (PDict (perform_update (compound l k) kw)) l)"

text \<open>The axis settings of the theme, read at the axis object stored under a key.\<close>

definition axis_styled :: "props \<Rightarrow> string \<Rightarrow> bool" where
  "axis_styled lay k =
     (get_path lay [k, ''showline''] = Some (PBool True) \<and>
      get_path lay [k, ''linecolor''] = Some (PStr ''black'') \<and>
      get_path lay [k, ''linewidth''] = Some (PFloat 2.4) \<and>
      get_path lay [k, ''ticks''] = Some (PStr ''outside'') \<and>
      get_path lay [k, ''mirror''] = Some (PStr ''allticks'') \<and>
      get_path lay [k, ''tickwidth''] = Some (PFloat 2.4) \<and>
      get_path lay [k, ''tickcolor''] = Some (PStr ''black''))"

section \<open>Paths, timestamps and the file system\<close>

text \<open>
  A \<^verbatim>\<open>pathlib\<close> path of the POSIX flavour, as \<^verbatim>\<open>PurePosixPath\<close> keeps it: the root (empty
  for a relative path, \<^verbatim>\<open>/\<close> or \<^verbatim>\<open>//\<close> otherwise) and the components. A path is a name:
  \<^verbatim>\<open>pathlib\<close> compares paths component by component and keeps \<^verbatim>\<open>..\<close> components as they
  are; which entry of the file system a path names is decided by the operating system
  (\<open>locate\<close> below).
\<close>

datatype path = Path (anchor: string) (names: "string list")

text \<open>
\<^verbatim>\<open>s.split(sep)\<close> for a one-character separator.
\<close>

fun str_split :: "char \<Rightarrow> string \<Rightarrow> string list" where
  "str_split sep [] = [[]]"
| "str_split sep (c # cs) =
     (if c = sep then [] # str_split sep cs
      else (case str_split sep cs of w # ws \<Rightarrow> (c # w) # ws | [] \<Rightarrow> [[c]]))"

text \<open>
  \<^verbatim>\<open>posixpath.splitroot\<close> without the (always empty) drive: exactly two leading slashes
  are a root of their own, one or more than two are the root \<^verbatim>\<open>/\<close>.
\<close>

definition splitroot :: "string \<Rightarrow> string \<times> string" where
  "splitroot p =
     (if take 1 p \<noteq> ''/'' then ('''', p)
      else if take 1 (drop 1 p) \<noteq> ''/'' \<or> take 1 (drop 2 p) = ''/'' then (''/'', drop 1 p)
      else (''//'', drop 2 p))"

text \<open>
  Parsing a string into a path: the components are the pieces between slashes, empty
  pieces and single dots dropped.
\<close>

definition parse_path :: "string \<Rightarrow> path" where
  "parse_path s =
     (let (root, rel) = splitroot s
      in Path root (filter (\<lambda>x. x \<noteq> '''' \<and> x \<noteq> ''.'') (str_split CHR ''/'' rel)))"

text \<open>
  \<^verbatim>\<open>path / s\<close>: an absolute right-hand side replaces the path, a relative one is
  appended to it.
\<close>

definition joinpath :: "path \<Rightarrow> string \<Rightarrow> path" where
  "joinpath p s =
     (let q = parse_path s
      in if anchor q \<noteq> '''' then q else Path (anchor p) (names p @ names q))"

text \<open>
\<^verbatim>\<open>path.parent\<close>, \<^verbatim>\<open>path.name\<close> and \<^verbatim>\<open>str(path)\<close>.
\<close>

definition parent :: "path \<Rightarrow> path" where
  "parent p = Path (anchor p) (butlast (names p))"

definition path_name :: "path \<Rightarrow> string" where
  "path_name p = (if names p = [] then '''' else last (names p))"

fun join_sep :: "string \<Rightarrow> string list \<Rightarrow> string" where
  "join_sep sep [] = []"
| "join_sep sep [x] = x"
| "join_sep sep (x # y # zs) = x @ sep @ join_sep sep (y # zs)"

definition str_path :: "path \<Rightarrow> string" where
  "str_path p =
     (if anchor p = '''' \<and> names p = [] then ''.'' else anchor p @ join_sep ''/'' (names p))"

text \<open>
  A reading of the clock, \<^verbatim>\<open>datetime.now()\<close>. The fields of a reading are in the ranges
  of \<^verbatim>\<open>valid_datetime\<close>; years are taken with four digits, as every current date has.
\<close>

record datetime =
  dt_year :: nat
  dt_month :: nat
  dt_day :: nat
  dt_hour :: nat
  dt_minute :: nat
  dt_second :: nat
  dt_microsecond :: nat

definition valid_datetime :: "datetime \<Rightarrow> bool" where
  "valid_datetime d =
     (1000 \<le> dt_year d \<and> dt_year d \<le> 9999 \<and> 1 \<le> dt_month d \<and> dt_month d \<le> 12 \<and>
      1 \<le> dt_day d \<and> dt_day d \<le> 31 \<and> dt_hour d < 24 \<and> dt_minute d < 60 \<and>
      dt_second d < 60 \<and> dt_microsecond d < 1000000)"

text \<open>
  A field printed in decimal with leading zeros, \<^verbatim>\<open>"%0wd" % n\<close>, for a field below
  \<open>10 ^ w\<close>.
\<close>

definition digit_char :: "nat \<Rightarrow> char" where
  "digit_char n = ''0123456789'' ! (n mod 10)"

fun zero_pad :: "nat \<Rightarrow> nat \<Rightarrow> string" where
  "zero_pad 0 n = []"
| "zero_pad (Suc w) n = zero_pad w (n div 10) @ [digit_char n]"

text \<open>
  \<^verbatim>\<open>now.strftime(fmt)\<close>: the directives \<^verbatim>\<open>%Y %m %d %H %M %S %f\<close> print the fields of the
  reading, every other character stands for itself.
\<close>

definition directive :: "char \<Rightarrow> datetime \<Rightarrow> string" where
  "directive c d =
     (if c = CHR ''Y'' then zero_pad 4 (dt_year d)
      else if c = CHR ''m'' then zero_pad 2 (dt_month d)
      else if c = CHR ''d'' then zero_pad 2 (dt_day d)
      else if c = CHR ''H'' then zero_pad 2 (dt_hour d)
      else if c = CHR ''M'' then zero_pad 2 (dt_minute d)
      else if c = CHR ''S'' then zero_pad 2 (dt_second d)
      else if c = CHR ''f'' then zero_pad 6 (dt_microsecond d)
      else [CHR ''%'', c])"

fun strftime :: "string \<Rightarrow> datetime \<Rightarrow> string" where
  "strftime [] d = []"
| "strftime (c # fs) d =
     (if c = CHR ''%'' then (case fs of [] \<Rightarrow> [c] | x # fs' \<Rightarrow> directive x d @ strftime fs' d)
      else c # strftime fs d)"

text \<open>
  The file system: a partial map from locations to entries. A file holds its text; a
  directory records whether entries may be created in it. A location is the list of the
  names that lead from the root directory to the entry; the root is the empty list.
  Symbolic links are not modelled.
\<close>

datatype node = File string | Dir bool

type_synonym location = "string list"

type_synonym filesystem = "location \<Rightarrow> node option"

datatype os_error =
  FileExistsError | FileNotFoundError | NotADirectoryError | IsADirectoryError | PermissionError

text \<open>
  Path resolution of the operating system, from the directory \<open>cur\<close>: every component
  is looked up in a directory that must exist; \<^verbatim>\<open>..\<close> leads to the parent directory (the
  root is its own parent), any other component to the entry of that name. The entry the
  last component names need not exist.
\<close>

fun walk :: "filesystem \<Rightarrow> location \<Rightarrow> string list \<Rightarrow> os_error + location" where
  "walk fs cur [] = Inr cur"
| "walk fs cur (c # cs) =
     (case fs cur of
        None \<Rightarrow> Inl FileNotFoundError
      | Some (File t) \<Rightarrow> Inl NotADirectoryError
      | Some (Dir w) \<Rightarrow> walk fs (if c = ''..'' then butlast cur else cur @ [c]) cs)"

text \<open>
  The location a path names: a relative path is resolved from the working directory
  \<open>wd\<close> of the process, an absolute one from the root.
\<close>

definition locate :: "filesystem \<Rightarrow> location \<Rightarrow> path \<Rightarrow> os_error + location" where
  "locate fs wd p = walk fs (if anchor p = '''' then wd else []) (names p)"

text \<open>
What \<^verbatim>\<open>os.stat(path)\<close> finds, if anything.
\<close>

definition entry :: "filesystem \<Rightarrow> location \<Rightarrow> path \<Rightarrow> node option" where
  "entry fs wd p = (case locate fs wd p of Inl e \<Rightarrow> None | Inr l \<Rightarrow> fs l)"

text \<open>
\<^verbatim>\<open>path.is_dir()\<close>
\<close>

definition is_dir :: "filesystem \<Rightarrow> location \<Rightarrow> path \<Rightarrow> bool" where
  "is_dir fs wd p = (case entry fs wd p of Some (Dir w) \<Rightarrow> True | _ \<Rightarrow> False)"

text \<open>
  Creating an entry at a location needs a parent directory that exists, is a directory
  and is writable; these are the errors the operating system reports otherwise.
\<close>

definition new_entry :: "filesystem \<Rightarrow> location \<Rightarrow> node \<Rightarrow> os_error + filesystem" where
  "new_entry fs l n =
     (case fs (butlast l) of
        None \<Rightarrow> Inl FileNotFoundError
      | Some (File c) \<Rightarrow> Inl NotADirectoryError
      | Some (Dir w) \<Rightarrow> if w then Inr (fs(l \<mapsto> n)) else Inl PermissionError)"

text \<open>
  \<^verbatim>\<open>os.mkdir(path)\<close>: the path is resolved; an entry that exists already is an error.
\<close>

definition os_mkdir :: "filesystem \<Rightarrow> location \<Rightarrow> path \<Rightarrow> os_error + filesystem" where
  "os_mkdir fs wd p =
     (case locate fs wd p of
        Inl e \<Rightarrow> Inl e
      | Inr l \<Rightarrow> if fs l \<noteq> None then Inl FileExistsError else new_entry fs l (Dir True))"

text \<open>
  \<^verbatim>\<open>path.mkdir(parents=True, exist_ok=True)\<close>, as \<^verbatim>\<open>pathlib\<close> implements it: try to create
  the directory; when the parent is missing, create the parent first (recursively) and
  try again; any other error is raised unless the path is a directory already. The
  parent is \<^verbatim>\<open>path.parent\<close>, the path without its last component.
\<close>

function mkdir :: "filesystem \<Rightarrow> location \<Rightarrow> path \<Rightarrow> os_error + filesystem" where
  "mkdir fs wd p =
     (case os_mkdir fs wd p of
        Inr fs' \<Rightarrow> Inr fs'
      | Inl e \<Rightarrow>
          if e = FileNotFoundError then
            (if parent p = p then Inl e
             else (case mkdir fs wd (parent p) of
                     Inl e' \<Rightarrow> Inl e'
                   | Inr fs1 \<Rightarrow>
                       (case os_mkdir fs1 wd p of
                          Inr fs2 \<Rightarrow> Inr fs2
                        | Inl e2 \<Rightarrow>
                            if e2 = FileNotFoundError then Inl e2
                            else if is_dir fs1 wd p then Inr fs1 else Inl e2)))
          else if is_dir fs wd p then Inr fs else Inl e)"
  by pat_completeness auto

termination
proof (relation "measure (\<lambda>(fs, wd, p). length (names p))")
  show "wf (measure (\<lambda>(fs, wd, p). length (names p)))" by simp
next
  fix fs :: filesystem and wd :: location and p :: path and e
  assume "parent p \<noteq> p"
  then have "names p \<noteq> []" by (cases p) (auto simp: parent_def)
  then show "((fs, wd, parent p), (fs, wd, p)) \<in> measure (\<lambda>(fs, wd, p). length (names p))"
    by (simp add: parent_def)
qed

declare mkdir.simps [simp del]

text \<open>
  \<^verbatim>\<open>path.write_text(content)\<close>, which \<^verbatim>\<open>fig.write_html(path)\<close> ends in: the path is
  resolved; an existing file is replaced, a new one is created, a directory cannot be
  written.
\<close>

definition write_text :: "filesystem \<Rightarrow> location \<Rightarrow> path \<Rightarrow> string \<Rightarrow> os_error + filesystem" where
  "write_text fs wd p content =
     (case locate fs wd p of
        Inl e \<Rightarrow> Inl e
      | Inr l \<Rightarrow>
          (case fs l of
             Some (Dir w) \<Rightarrow> Inl IsADirectoryError
           | Some (File c) \<Rightarrow> Inr (fs(l \<mapsto> File content))
           | None \<Rightarrow> new_entry fs l (File content)))"

text \<open>
  What \<^verbatim>\<open>save\<close> acts on: the file system, the working directory of the process and the
  records of the logger.
\<close>

record sys =
  files :: filesystem
  cwd :: location
  log :: "string list"

section \<open>\<^verbatim>\<open>save\<close>\<close>

text \<open>
  \<^verbatim>\<open>save(fig, name, path)\<close>. The serializer of the charting engine
  (\<^verbatim>\<open>fig.write_html(..., include_mathjax="cdn")\<close>) is the parameter \<open>to_html\<close>, the clock
  reading of \<^verbatim>\<open>datetime.now()\<close> is the parameter \<open>now\<close>. The result is the state after
  the call and either the exception that left it or the returned path. No exception is
  caught: the first failing step ends the call.
\<close>

definition save ::
  "(figure \<Rightarrow> string) \<Rightarrow> datetime \<Rightarrow> sys \<Rightarrow> figure \<Rightarrow> string \<Rightarrow> path \<Rightarrow> sys \<times> (os_error + path)" where
  "save to_html now s fig name path =
     (case mkdir (files s) (cwd s) path of
        Inl e \<Rightarrow> (s, Inl e)
      | Inr fs1 \<Rightarrow>
          (let timestamp = strftime ''%Y-%m-%d_%H-%M-%S-%f'' now;
               filepath = joinpath path (name @ ''_'' @ timestamp @ ''.html'')
           in case write_text fs1 (cwd s) filepath (to_html fig) of
                Inl e \<Rightarrow> (s\<lparr>files := fs1\<rparr>, Inl e)
              | Inr fs2 \<Rightarrow>
                  (s\<lparr>files := fs2, log := log s @ [''Saved figure to '' @ str_path filepath]\<rparr>,
                   Inr filepath)))"

subsection \<open>Auxiliary notions for the proofs\<close>

text \<open>
  The format string of \<^verbatim>\<open>save\<close>, the file name it builds, and the shape of a timestamp:
  in a pattern the letters \<^verbatim>\<open>Y M D H S f\<close> stand for a decimal digit, any other character
  for itself.
\<close>

definition timestamp_format :: string where
  "timestamp_format = ''%Y-%m-%d_%H-%M-%S-%f''"

definition save_file :: "datetime \<Rightarrow> string \<Rightarrow> string" where
  "save_file now name = name @ ''_'' @ strftime timestamp_format now @ ''.html''"

fun has_format :: "string \<Rightarrow> string \<Rightarrow> bool" where
  "has_format [] [] = True"
| "has_format (p # ps) (c # cs) =
     ((if p \<in> set ''YMDHSf'' then is_digit c else c = p) \<and> has_format ps cs)"
| "has_format _ _ = False"

text \<open>
  What \<^verbatim>\<open>pathlib\<close> makes of a base name: the part behind its root, the directory
  components it contributes, and the piece behind its last slash.
\<close>

definition name_rel :: "string \<Rightarrow> string" where
  "name_rel name = snd (splitroot name)"

definition name_dirs :: "string \<Rightarrow> string list" where
  "name_dirs name =
     filter (\<lambda>x. x \<noteq> '''' \<and> x \<noteq> ''.'') (butlast (str_split CHR ''/'' (name_rel name)))"

definition name_base :: "string \<Rightarrow> string" where
  "name_base name = last (str_split CHR ''/'' (name_rel name))"




section \<open>The figure builders\<close>

text \<open>
  The builders forward their arguments to the charting engine as keyword arguments. An
  argument is the table (of a type the builders never look into) or a Python value;
  \<^verbatim>\<open>None\<close> stands for an option that was not given.
\<close>

datatype 'df arg = Frame 'df | Val pval

definition opt :: "string option \<Rightarrow> pval" where
  "opt v = (case v of None \<Rightarrow> PNone | Some s \<Rightarrow> PStr s)"

text \<open>
  The charting engine is a parameter: \<^verbatim>\<open>px.line\<close>, \<^verbatim>\<open>px.scatter\<close>, \<^verbatim>\<open>px.scatter_3d\<close>
  and the trace constructor \<^verbatim>\<open>go.Surface\<close> either raise an exception (of a type the
  builders never look into) or return what they built; the renderer behind \<^verbatim>\<open>fig.show()\<close>
  may raise as well. The engine's default template, \<^verbatim>\<open>pio.templates.default\<close>, is what the
  figure constructor \<^verbatim>\<open>go.Figure(data=...)\<close> installs in the layout of a new figure.
\<close>

record ('df, 'e) engine =
  px_line :: "(string \<times> 'df arg) list \<Rightarrow> 'e + figure"
  px_scatter :: "(string \<times> 'df arg) list \<Rightarrow> 'e + figure"
  px_scatter_3d :: "(string \<times> 'df arg) list \<Rightarrow> 'e + figure"
  go_Surface :: "(string \<times> 'df arg) list \<Rightarrow> 'e + props"
  default_template :: "props option"
  renderer :: "figure \<Rightarrow> 'e option"

text \<open>
  What a builder acts on: the figure objects, and the figures the interactive viewer
  has been opened on, in order.
\<close>

record world =
  objects :: heap
  shown :: "figure list"

text \<open>
A figure returned by the engine is a new object.
\<close>

definition new_figure :: "world \<Rightarrow> figure \<Rightarrow> world \<times> ref" where
  "new_figure w f = (w\<lparr>objects := objects w @ [f]\<rparr>, length (objects w))"

text \<open>
\<^verbatim>\<open>fig.show()\<close>
\<close>

definition fig_show :: "('df, 'e) engine \<Rightarrow> world \<Rightarrow> ref \<Rightarrow> world \<times> ('e + unit)" where
  "fig_show eng w fig =
     (case renderer eng (objects w ! fig) of
        Some e \<Rightarrow> (w, Inl e)
      | None \<Rightarrow> (w\<lparr>shown := shown w @ [objects w ! fig]\<rparr>, Inr ()))"

text \<open>
  The end of every builder: \<^verbatim>\<open>if show: fig.show()\<close>, then \<^verbatim>\<open>return fig\<close>.
\<close>

definition show_and_return ::
  "('df, 'e) engine \<Rightarrow> world \<Rightarrow> ref \<Rightarrow> bool \<Rightarrow> world \<times> ('e + ref)" where
  "show_and_return eng w fig show =
     (if show then
        (case fig_show eng w fig of
           (w', Inl e) \<Rightarrow> (w', Inl e)
         | (w', Inr u) \<Rightarrow> (w', Inr fig))
      else (w, Inr fig))"

text \<open>
\<^verbatim>\<open>fig.update_traces(**kwargs)\<close>: the update is applied to every trace.
\<close>

definition update_traces :: "heap \<Rightarrow> ref \<Rightarrow> props \<Rightarrow> heap" where
  "update_traces h r kw =
     h[r := (h ! r)\<lparr>fig_data := map (\<lambda>t. perform_update t kw) (fig_data (h ! r))\<rparr>]"

text \<open>
The keyword arguments \<^verbatim>\<open>line\<close> passes to \<^verbatim>\<open>px.line\<close>, and \<^verbatim>\<open>line\<close>.
\<close>

definition line_kwargs ::
  "'df \<Rightarrow> string \<Rightarrow> pval \<Rightarrow> string option \<Rightarrow> string option \<Rightarrow> string option \<Rightarrow> string option \<Rightarrow>
   bool \<Rightarrow> string option \<Rightarrow> bool \<Rightarrow> (string \<times> 'df arg) list" where
  "line_kwargs df x y fc fr x_error y_error markers title dark =
     (let template = (if dark then ''plotly_dark'' else ''plotly'')
      in [(''data_frame'', Frame df),
          (''x'', Val (PStr x)),
          (''y'', Val y),
          (''title'', Val (opt title)),
          (''error_x'', Val (opt x_error)),
          (''error_y'', Val (opt y_error)),
          (''markers'', Val (PBool markers)),
          (''facet_col'', Val (opt fc)),
          (''facet_row'', Val (opt fr)),
          (''template'', Val (PStr template))])"

definition line ::
  "('df, 'e) engine \<Rightarrow> world \<Rightarrow> 'df \<Rightarrow> string \<Rightarrow> pval \<Rightarrow> string option \<Rightarrow> string option \<Rightarrow>
   string option \<Rightarrow> string option \<Rightarrow> bool \<Rightarrow> string option \<Rightarrow> bool \<Rightarrow> bool \<Rightarrow> world \<times> ('e + ref)" where
  "line eng w df x y fc fr x_error y_error markers title show dark =
     (case px_line eng (line_kwargs df x y fc fr x_error y_error markers title dark) of
        Inl e \<Rightarrow> (w, Inl e)
      | Inr f \<Rightarrow> (let (w1, fig) = new_figure w f in show_and_return eng w1 fig show))"

text \<open>
\<^verbatim>\<open>scatter\<close>
\<close>

definition scatter_kwargs ::
  "'df \<Rightarrow> string \<Rightarrow> pval \<Rightarrow> string option \<Rightarrow> string option \<Rightarrow> string option \<Rightarrow> string option \<Rightarrow>
   string option \<Rightarrow> string option \<Rightarrow> string option \<Rightarrow> string option \<Rightarrow> (string \<times> 'df arg) list" where
  "scatter_kwargs df x y c s m fc fr x_error y_error title =
     [(''data_frame'', Frame df),
      (''x'', Val (PStr x)),
      (''y'', Val y),
      (''color'', Val (opt c)),
      (''symbol'', Val (opt m)),
      (''size'', Val (opt s)),
      (''title'', Val (opt title)),
      (''error_x'', Val (opt x_error)),
      (''error_y'', Val (opt y_error)),
      (''facet_col'', Val (opt fc)),
      (''facet_row'', Val (opt fr))]"

definition scatter ::
  "('df, 'e) engine \<Rightarrow> world \<Rightarrow> 'df \<Rightarrow> string \<Rightarrow> pval \<Rightarrow> string option \<Rightarrow> string option \<Rightarrow>
   string option \<Rightarrow> string option \<Rightarrow> string option \<Rightarrow> string option \<Rightarrow> string option \<Rightarrow>
   string option \<Rightarrow> bool \<Rightarrow> world \<times> ('e + ref)" where
  "scatter eng w df x y c s m fc fr x_error y_error title show =
     (case px_scatter eng (scatter_kwargs df x y c s m fc fr x_error y_error title) of
        Inl e \<Rightarrow> (w, Inl e)
      | Inr f \<Rightarrow> (let (w1, fig) = new_figure w f in show_and_return eng w1 fig show))"

text \<open>
\<^verbatim>\<open>scatter3\<close>
\<close>

definition scatter3_kwargs ::
  "'df \<Rightarrow> string \<Rightarrow> string \<Rightarrow> pval \<Rightarrow> string option \<Rightarrow> string option \<Rightarrow> string option \<Rightarrow>
   string option \<Rightarrow> string option \<Rightarrow> string option \<Rightarrow> string option \<Rightarrow> (string \<times> 'df arg) list" where
  "scatter3_kwargs df x y z c s m x_error y_error z_error title =
     [(''data_frame'', Frame df),
      (''x'', Val (PStr x)),
      (''y'', Val (PStr y)),
      (''z'', Val z),
      (''color'', Val (opt c)),
      (''symbol'', Val (opt m)),
      (''size'', Val (opt s)),
      (''title'', Val (opt title)),
      (''error_x'', Val (opt x_error)),
      (''error_y'', Val (opt y_error)),
      (''error_z'', Val (opt z_error))]"

definition scatter3 ::
  "('df, 'e) engine \<Rightarrow> world \<Rightarrow> 'df \<Rightarrow> string \<Rightarrow> string \<Rightarrow> pval \<Rightarrow> string option \<Rightarrow>
   string option \<Rightarrow> string option \<Rightarrow> string option \<Rightarrow> string option \<Rightarrow> string option \<Rightarrow>
   string option \<Rightarrow> bool \<Rightarrow> world \<times> ('e + ref)" where
  "scatter3 eng w df x y z c s m x_error y_error z_error title show =
     (case px_scatter_3d eng (scatter3_kwargs df x y z c s m x_error y_error z_error title) of
        Inl e \<Rightarrow> (w, Inl e)
      | Inr f \<Rightarrow> (let (w1, fig) = new_figure w f in show_and_return eng w1 fig show))"

text \<open>
  \<^verbatim>\<open>surface\<close>. plotly reads an underscore in a keyword as a path into nested
  properties: \<^verbatim>\<open>contours_z=dict(..., project_z=True)\<close> is written out here as the nested
  dictionaries it denotes, and so is \<^verbatim>\<open>scene=dict(xaxis_title=...)\<close>.
\<close>

definition contours_kwargs :: props where
  "contours_kwargs =
     [(''contours'',
       PDict [(''z'',
         PDict [(''show'', PBool True),
                (''usecolormap'', PBool True),
                (''highlightcolor'', PStr ''limegreen''),
                (''project'', PDict [(''z'', PBool True)])])])]"

definition scene_kwargs ::
  "string option \<Rightarrow> string option \<Rightarrow> string option \<Rightarrow> string option \<Rightarrow> props" where
  "scene_kwargs title title_x title_y title_z =
     [(''title'', opt title),
      (''scene'',
       PDict [(''xaxis'', PDict [(''title'', opt title_x)]),
              (''yaxis'', PDict [(''title'', opt title_y)]),
              (''zaxis'', PDict [(''title'', opt title_z)])])]"

definition surface ::
  "('df, 'e) engine \<Rightarrow> world \<Rightarrow> pval \<Rightarrow> pval \<Rightarrow> pval \<Rightarrow> string option \<Rightarrow> string option \<Rightarrow>
   string option \<Rightarrow> string option \<Rightarrow> bool \<Rightarrow> world \<times> ('e + ref)" where
  "surface eng w x y z title title_x title_y title_z show =
     (case go_Surface eng [(''z'', Val z), (''x'', Val x), (''y'', Val y)] of
        Inl e \<Rightarrow> (w, Inl e)
      | Inr trace \<Rightarrow>
          (let (w1, fig) = new_figure w
                 \<lparr>fig_data = [trace],
                  fig_layout = initialize_layout_template (default_template eng) []\<rparr>;
               w2 = w1\<lparr>objects := update_traces (objects w1) fig contours_kwargs\<rparr>;
               w3 = w2\<lparr>objects := update_layout (objects w2) fig
                                      (scene_kwargs title title_x title_y title_z)\<rparr>
           in show_and_return eng w3 fig show))"

subsection \<open>Auxiliary notions for the proofs\<close>

text \<open>
  The figure \<^verbatim>\<open>surface\<close> makes of the trace the engine constructed; the outcome of a
  builder that returns the figure \<open>f\<close>; and what a returned reference \<open>r\<close> says about the
  state \<open>w'\<close> after the call: the reference is new, its figure is the only new object,
  and the viewer was opened on it exactly when the flag is set.
\<close>

definition surface_figure ::
  "props option \<Rightarrow> props \<Rightarrow> string option \<Rightarrow> string option \<Rightarrow> string option \<Rightarrow>
   string option \<Rightarrow> figure" where
  "surface_figure tmpl trace title title_x title_y title_z =
     \<lparr>fig_data = [perform_update trace contours_kwargs],
      fig_layout = perform_update (initialize_layout_template tmpl [])
                     (scene_kwargs title title_x title_y title_z)\<rparr>"

definition displayed :: "world \<Rightarrow> figure \<Rightarrow> bool \<Rightarrow> world \<times> ('e + ref)" where
  "displayed w f show =
     (w\<lparr>objects := objects w @ [f], shown := shown w @ (if show then [f] else [])\<rparr>,
      Inr (length (objects w)))"

definition returned :: "world \<Rightarrow> bool \<Rightarrow> world \<Rightarrow> ref \<Rightarrow> bool" where
  "returned w show w' r =
     (r = length (objects w) \<and>
      objects w' = objects w @ [objects w' ! r] \<and>
      shown w' = shown w @ (if show then [objects w' ! r] else []))"

section \<open>The broadcast helper of the tests\<close>

text \<open>
  The tests build their parameter grids with \<^verbatim>\<open>plot.libs.utillib.orient_and_broadcast\<close>,
  a module of the repository whose source is not among the files verified here. Arrays
  are modelled as nested lists: an array is a scalar or a list of arrays, one per index
  of its first axis. The axis index, \<^verbatim>\<open>dim\<close> in the spec, is written \<open>ax\<close> below.
\<close>

datatype 'a ndarray = Scalar 'a | Axis "'a ndarray list"

datatype np_error = ShapeMismatch | AxisOutOfRange

text \<open>
  Modelled from the spec: the source of \<^verbatim>\<open>orient_and_broadcast\<close> is missing. Values
  that are "replicated identically" across axes: the array of a shape that holds one
  value everywhere.
\<close>

fun full :: "nat list \<Rightarrow> 'a \<Rightarrow> 'a ndarray" where
  "full [] v = Scalar v"
| "full (n # ns) v = Axis (replicate n (full ns v))"

text \<open>
  Modelled from the spec: the source of \<^verbatim>\<open>orient_and_broadcast\<close> is missing. "An array
  of that shape where values vary only along \<^verbatim>\<open>dim\<close> and are replicated identically
  across all other axes": along the axis the entries are the elements of \<^verbatim>\<open>a\<close> in order,
  along every other axis the same array is repeated.
\<close>

fun broadcast_along :: "'a list \<Rightarrow> nat \<Rightarrow> nat list \<Rightarrow> 'a ndarray" where
  "broadcast_along a ax [] = Axis []"
| "broadcast_along a 0 (n # ns) = Axis (map (full ns) a)"
| "broadcast_along a (Suc d) (n # ns) = Axis (replicate n (broadcast_along a d ns))"

text \<open>
  Modelled from the spec: the source of \<^verbatim>\<open>orient_and_broadcast\<close> is missing. The spec
  (section 4.1): given a 1-D sequence \<^verbatim>\<open>a\<close>, an axis index \<^verbatim>\<open>dim\<close> and a shape of positive
  integers, produce the array above; "if \<^verbatim>\<open>len(a) != shape[dim]\<close>, the operation fails
  with a shape-mismatch error". The spec does not say what happens when \<^verbatim>\<open>dim\<close> is not
  an axis of the shape; the model reports that as an error of its own.
\<close>

definition orient_and_broadcast :: "'a list \<Rightarrow> nat \<Rightarrow> nat list \<Rightarrow> np_error + 'a ndarray" where
  "orient_and_broadcast a ax shape =
     (if length shape \<le> ax then Inl AxisOutOfRange
      else if length a \<noteq> shape ! ax then Inl ShapeMismatch
      else Inr (broadcast_along a ax shape))"

text \<open>
\<^verbatim>\<open>arr.shape\<close>, \<^verbatim>\<open>arr[i0, i1, ...]\<close>, and the index tuples of a shape.
\<close>

fun shape_of :: "'a ndarray \<Rightarrow> nat list" where
  "shape_of (Scalar v) = []"
| "shape_of (Axis []) = [0]"
| "shape_of (Axis (x # xs)) = Suc (length xs) # shape_of x"

fun index :: "'a ndarray \<Rightarrow> nat list \<Rightarrow> 'a option" where
  "index (Scalar v) [] = Some v"
| "index (Axis xs) (i # idx) = (if i < length xs then index (xs ! i) idx else None)"
| "index _ _ = None"

definition valid_index :: "nat list \<Rightarrow> nat list \<Rightarrow> bool" where
  "valid_index shape idx = (length idx = length shape \<and> (\<forall>i < length shape. idx ! i < shape ! i))"

section \<open>Example inputs\<close>

text \<open>An example figure: one scatter trace, a styled font, a width and a second x axis.\<close>

definition fig0 :: figure where
  "fig0 = \<lparr>fig_data = [[(''type'', PStr ''scatter'')]],
          fig_layout = [(''font'', PDict [(''family'', PStr ''Courier''), (''style'', PStr ''italic'')]),
                        (''width'', PInt 100),
                        (''xaxis2'', PDict [(''showline'', PBool False)])]\<rparr>"

text \<open>An example default template of the charting engine.\<close>

definition template0 :: props where
  "template0 = [(''layout'', PDict [(''colorway'', PList [PStr ''#636efa'', PStr ''#EF553B''])])]"

text \<open>
Two clock readings one microsecond apart.
\<close>

definition dt0 :: datetime where
  "dt0 = \<lparr>dt_year = 2024, dt_month = 3, dt_day = 9, dt_hour = 7, dt_minute = 5,
          dt_second = 1, dt_microsecond = 42\<rparr>"

definition dt1 :: datetime where
  "dt1 = dt0\<lparr>dt_microsecond := 43\<rparr>"

text \<open>
  File systems: one that holds only a read-only root and the working directory
  \<^verbatim>\<open>/work\<close>, one where \<^verbatim>\<open>out/\<close> and \<^verbatim>\<open>out/a/\<close> exist in the working directory, and one where
  \<^verbatim>\<open>out\<close> is a file.
\<close>

definition fs0 :: filesystem where
  "fs0 = [[] \<mapsto> Dir False, [''work''] \<mapsto> Dir True]"

definition fs_out :: filesystem where
  "fs_out = fs0([''work'', ''out''] \<mapsto> Dir True, [''work'', ''out'', ''a''] \<mapsto> Dir True)"


definition sys0 :: sys where
  "sys0 = \<lparr>files = fs_out, cwd = [''work''], log = []\<rparr>"

text \<open>
  A small charting engine: it fails when the \<^verbatim>\<open>x\<close> column is not in the table, its
  default template is the example template, and its renderer never fails.
\<close>

definition toy_px :: "(string \<times> (string \<times> int list) list arg) list \<Rightarrow> string + figure" where
  "toy_px kw =
     (case (map_of kw ''data_frame'', map_of kw ''x'') of
        (Some (Frame df), Some (Val (PStr x))) \<Rightarrow>
          if x \<in> fst ` set df then Inr fig0 else Inl (''no column '' @ x)
      | _ \<Rightarrow> Inl ''bad arguments'')"

definition toy_engine :: "((string \<times> int list) list, string) engine" where
  "toy_engine =
     \<lparr>px_line = toy_px, px_scatter = toy_px, px_scatter_3d = toy_px,
      go_Surface = (\<lambda>kw. Inr [(''type'', PStr ''surface'')]),
      default_template = Some template0,
      renderer = (\<lambda>f. None)\<rparr>"

definition df0 :: "(string \<times> int list) list" where
  "df0 = [(''x'', [1, 2, 3]), (''y'', [1, 2, 3])]"

definition w0 :: world where
  "w0 = \<lparr>objects = [], shown = []\<rparr>"

section \<open>Properties of the style adapter\<close>

lemma perform_update_settled: "settled obj kw \<Longrightarrow> perform_update obj kw = obj"
  unfolding settled_def
proof (induction obj kw rule: perform_update.induct)
  case (2 obj k d upd)
  then have "AList.update k (PDict (perform_update (compound obj k) d)) obj = obj"
    by (simp add: AList.update_triv)
  with 2 show ?case by simp
next
  case (3 obj k upd)
  then have "AList.delete k obj = obj" by simp
  with 3 show ?case by simp
qed (simp_all add: AList.update_triv)

lemma font_dict_settled: "settled (perform_update d font_dict) font_dict"
  by (simp add: settled_def font_dict_def AList.update_conv')

lemma margin_dict_settled: "settled (perform_update d margin_dict) margin_dict"
  by (simp add: settled_def margin_dict_def AList.update_conv')

lemma layout_kwargs_settled: "settled (perform_update d layout_kwargs) layout_kwargs"
  using font_dict_settled [THEN perform_update_settled]
    margin_dict_settled [THEN perform_update_settled]
  by (simp add: settled_def layout_kwargs_def compound_def AList.update_conv')

lemma yaxes_kwargs_settled: "settled (perform_update d yaxes_kwargs) yaxes_kwargs"
  using font_dict_settled [THEN perform_update_settled]
  by (simp add: settled_def yaxes_kwargs_def compound_def AList.update_conv')

lemma xaxes_kwargs_settled: "settled (perform_update d xaxes_kwargs) xaxes_kwargs"
  using font_dict_settled [THEN perform_update_settled]
  by (simp add: settled_def xaxes_kwargs_def compound_def AList.update_conv')

lemma fold_axis_other:
  "k \<notin> set ks \<Longrightarrow> map_of (fold (axis_step kw) ks l) k = map_of l k"
  by (induction ks arbitrary: l) (auto simp: AList.update_conv')

lemma fold_axis_keys:
  "fst ` set (fold (axis_step kw) ks l) = set ks \<union> fst ` set l"
  by (induction ks arbitrary: l) (auto simp: AList.dom_update)

lemma fold_axis_hit:
  assumes "\<And>d. settled (perform_update d kw) kw" and "k \<in> set ks"
  shows "\<exists>d. map_of (fold (axis_step kw) ks l) k = Some (PDict d) \<and> settled d kw"
  using assms(2)
proof (induction ks arbitrary: l)
  case Nil
  then show ?case by simp
next
  case (Cons a ks)
  show ?case
  proof (cases "k \<in> set ks")
    case True
    then show ?thesis using Cons.IH by simp
  next
    case False
    with Cons.prems have "k = a" by simp
    with False assms(1) show ?thesis
      by (simp add: fold_axis_other AList.update_conv')
  qed
qed

lemma fold_axis_settled:
  "\<forall>k \<in> set ks. \<exists>d. map_of l k = Some (PDict d) \<and> settled d kw \<Longrightarrow>
   fold (axis_step kw) ks l = l"
proof (induction ks)
  case Nil
  then show ?case by simp
next
  case (Cons a ks)
  then obtain d where d: "map_of l a = Some (PDict d)" "settled d kw" by auto
  then have "AList.update a (PDict (perform_update (compound l a) kw)) l = l"
    by (simp add: compound_def perform_update_settled AList.update_triv)
  with Cons show ?case by simp
qed

lemma set_select_axes:
  "set (select_axes p lay) = insert p {k \<in> fst ` set lay. is_axis_key p k}"
  by (auto simp: select_axes_def is_axis_key_def)

lemma update_axes_other:
  "k \<noteq> p \<Longrightarrow> \<not> is_axis_key p k \<Longrightarrow> map_of (update_axes p lay kw) k = map_of lay k"
  by (simp add: update_axes_def fold_axis_other set_select_axes)

lemma update_axes_keys: "fst ` set (update_axes p lay kw) = insert p (fst ` set lay)"
  by (auto simp: update_axes_def fold_axis_keys set_select_axes)

lemma update_axes_hit:
  assumes "\<And>d. settled (perform_update d kw) kw" and "k \<in> set (select_axes p lay)"
  shows "\<exists>d. map_of (update_axes p lay kw) k = Some (PDict d) \<and> settled d kw"
  unfolding update_axes_def using assms by (rule fold_axis_hit)

lemma update_axes_settled:
  "\<forall>k \<in> set (select_axes p lay). \<exists>d. map_of lay k = Some (PDict d) \<and> settled d kw \<Longrightarrow>
   update_axes p lay kw = lay"
  unfolding update_axes_def by (rule fold_axis_settled)

lemma yaxis_not_xaxis: "is_axis_key ''yaxis'' k \<Longrightarrow> \<not> is_axis_key ''xaxis'' k"
  by (auto simp: is_axis_key_def)

lemma xaxis_not_yaxis: "is_axis_key ''xaxis'' k \<Longrightarrow> \<not> is_axis_key ''yaxis'' k"
  by (auto simp: is_axis_key_def)

lemma axis_key_self: "is_axis_key p p"
  by (simp add: is_axis_key_def)

text \<open>The entries of a themed layout.\<close>

lemma themed_top:
  "k \<noteq> ''xaxis'' \<Longrightarrow> k \<noteq> ''yaxis'' \<Longrightarrow> \<not> is_axis_key ''xaxis'' k \<Longrightarrow> \<not> is_axis_key ''yaxis'' k \<Longrightarrow>
   map_of (themed lay) k = map_of (perform_update lay layout_kwargs) k"
  by (simp add: themed_def update_axes_other)

lemma themed_keys: "fst ` set (themed lay) = {''xaxis'', ''yaxis''} \<union> fst ` set (perform_update lay layout_kwargs)"
  by (auto simp: themed_def update_axes_keys)

lemma themed_xaxis:
  assumes "k \<in> set (select_axes ''xaxis'' (themed lay))"
  shows "\<exists>d. map_of (themed lay) k = Some (PDict d) \<and> settled d xaxes_kwargs"
proof -
  let ?y = "update_axes ''yaxis'' (perform_update lay layout_kwargs) yaxes_kwargs"
  from assms have "k \<in> set (select_axes ''xaxis'' ?y)"
    by (auto simp: set_select_axes themed_def update_axes_keys)
  then show ?thesis
    unfolding themed_def by (rule update_axes_hit [OF xaxes_kwargs_settled])
qed

lemma themed_yaxis:
  assumes "k \<in> set (select_axes ''yaxis'' (themed lay))"
  shows "\<exists>d. map_of (themed lay) k = Some (PDict d) \<and> settled d yaxes_kwargs"
proof -
  let ?l = "perform_update lay layout_kwargs"
  let ?y = "update_axes ''yaxis'' ?l yaxes_kwargs"
  from assms have k: "k = ''yaxis'' \<or> is_axis_key ''yaxis'' k"
    by (auto simp: set_select_axes)
  then have ky: "is_axis_key ''yaxis'' k" by (auto simp: axis_key_self)
  then have nx: "\<not> is_axis_key ''xaxis'' k" "k \<noteq> ''xaxis''"
    by (auto simp: is_axis_key_def)
  from assms ky nx have "k \<in> set (select_axes ''yaxis'' ?l)"
    by (auto simp: set_select_axes themed_def update_axes_keys)
  then have "\<exists>d. map_of ?y k = Some (PDict d) \<and> settled d yaxes_kwargs"
    by (rule update_axes_hit [OF yaxes_kwargs_settled])
  with nx show ?thesis
    by (simp add: themed_def update_axes_other)
qed

lemma themed_settled: "settled (themed lay) layout_kwargs"
proof -
  have "settled (perform_update lay layout_kwargs) layout_kwargs"
    by (rule layout_kwargs_settled)
  then show ?thesis
    by (simp add: settled_def layout_kwargs_def compound_def themed_top is_axis_key_def)
qed

lemma themed_idem: "themed (themed lay) = themed lay"
proof -
  let ?t = "themed lay"
  have 1: "perform_update ?t layout_kwargs = ?t"
    by (rule perform_update_settled [OF themed_settled])
  have 2: "update_axes ''yaxis'' ?t yaxes_kwargs = ?t"
    by (rule update_axes_settled) (use themed_yaxis in blast)
  have 3: "update_axes ''xaxis'' ?t xaxes_kwargs = ?t"
    by (rule update_axes_settled) (use themed_xaxis in blast)
  show ?thesis
    by (subst (1) themed_def) (simp only: 1 2 3)
qed

lemma style_to_matplotlib_heap:
  "style_to_matplotlib tmpl h fig =
     (h @ [(h ! fig)\<lparr>fig_layout :=
             themed (initialize_layout_template tmpl (fig_layout (h ! fig)))\<rparr>],
      length h)"
  by (simp add: style_to_matplotlib_def go_Figure_def update_layout_def update_yaxes_def
      update_xaxes_def themed_def Let_def)

lemma font_dict_entries:
  assumes "perform_update f font_dict = f"
  shows "map_of f ''family'' = Some (PStr ''Arial'') \<and> map_of f ''size'' = Some (PInt 26) \<and>
         map_of f ''color'' = Some (PStr ''black'')"
proof -
  have "map_of (perform_update f font_dict) ''family'' = Some (PStr ''Arial'') \<and>
        map_of (perform_update f font_dict) ''size'' = Some (PInt 26) \<and>
        map_of (perform_update f font_dict) ''color'' = Some (PStr ''black'')"
    by (simp add: font_dict_def AList.update_conv')
  then show ?thesis by (simp only: assms)
qed

lemma margin_dict_entries:
  assumes "perform_update m margin_dict = m"
  shows "map_of m ''r'' = Some (PInt 20) \<and> map_of m ''t'' = Some (PInt 20) \<and>
         map_of m ''b'' = Some (PInt 10)"
proof -
  have "map_of (perform_update m margin_dict) ''r'' = Some (PInt 20) \<and>
        map_of (perform_update m margin_dict) ''t'' = Some (PInt 20) \<and>
        map_of (perform_update m margin_dict) ''b'' = Some (PInt 10)"
    by (simp add: margin_dict_def AList.update_conv')
  then show ?thesis by (simp only: assms)
qed

lemma settled_yaxis_styled:
  "map_of lay k = Some (PDict d) \<Longrightarrow> settled d yaxes_kwargs \<Longrightarrow> axis_styled lay k"
  by (simp add: axis_styled_def settled_def yaxes_kwargs_def)

lemma settled_xaxis_styled:
  "map_of lay k = Some (PDict d) \<Longrightarrow> settled d xaxes_kwargs \<Longrightarrow> axis_styled lay k"
  by (simp add: axis_styled_def settled_def xaxes_kwargs_def)

lemma themed_axes_styled:
  "k \<in> set (select_axes ''xaxis'' (themed lay)) \<union> set (select_axes ''yaxis'' (themed lay)) \<Longrightarrow>
   axis_styled (themed lay) k"
  using themed_xaxis themed_yaxis settled_xaxis_styled settled_yaxis_styled
  by (metis Un_iff)

lemma themed_layout_fields:
  "get_path (themed lay) [''font'', ''family''] = Some (PStr ''Arial'') \<and>
   get_path (themed lay) [''font'', ''size''] = Some (PInt 26) \<and>
   get_path (themed lay) [''font'', ''color''] = Some (PStr ''black'') \<and>
   get_path (themed lay) [''plot_bgcolor''] = Some (PStr ''white'') \<and>
   get_path (themed lay) [''width''] = Some (PInt 850) \<and>
   get_path (themed lay) [''height''] = Some (PInt 700) \<and>
   get_path (themed lay) [''margin'', ''r''] = Some (PInt 20) \<and>
   get_path (themed lay) [''margin'', ''t''] = Some (PInt 20) \<and>
   get_path (themed lay) [''margin'', ''b''] = Some (PInt 10)"
proof -
  let ?t = "themed lay"
  have s: "settled ?t layout_kwargs" by (rule themed_settled)
  then have f: "perform_update (compound ?t ''font'') font_dict = compound ?t ''font''"
    and fm: "map_of ?t ''font'' = Some (PDict (compound ?t ''font''))"
    and m: "perform_update (compound ?t ''margin'') margin_dict = compound ?t ''margin''"
    and mm: "map_of ?t ''margin'' = Some (PDict (compound ?t ''margin''))"
    and rest: "map_of ?t ''plot_bgcolor'' = Some (PStr ''white'')"
      "map_of ?t ''width'' = Some (PInt 850)" "map_of ?t ''height'' = Some (PInt 700)"
    by (simp_all add: settled_def layout_kwargs_def)
  from font_dict_entries [OF f] margin_dict_entries [OF m] fm mm rest
  show ?thesis by simp
qed

subsection \<open>What the theme leaves alone\<close>

lemma map_of_perform_update_other:
  "k \<notin> fst ` set kw \<Longrightarrow> map_of (perform_update obj kw) k = map_of obj k"
  by (induction obj kw rule: perform_update.induct)
     (auto simp: AList.update_conv' AList.delete_conv')

lemma get_path_compound: "get_path lay [k, p] = map_of (compound lay k) p"
  by (simp add: compound_def split: option.splits pval.splits)

lemma compound_cong: "map_of l k = map_of l' k \<Longrightarrow> compound l k = compound l' k"
  by (simp add: compound_def)

lemma fold_axis_preserve:
  assumes "k \<in> set ks"
  shows "\<exists>d. map_of (fold (axis_step kw) ks l) k = Some (PDict d) \<and>
             (\<forall>p. p \<notin> fst ` set kw \<longrightarrow> map_of d p = map_of (compound l k) p)"
  using assms
proof (induction ks arbitrary: l)
  case Nil
  then show ?case by simp
next
  case (Cons a ks)
  let ?l' = "axis_step kw a l"
  have step: "\<forall>p. p \<notin> fst ` set kw \<longrightarrow> map_of (compound ?l' k) p = map_of (compound l k) p"
    by (cases "a = k")
       (auto simp: compound_def AList.update_conv' map_of_perform_update_other)
  show ?case
  proof (cases "k \<in> set ks")
    case True
    from Cons.IH [OF True, of ?l'] step show ?thesis by auto
  next
    case False
    with Cons.prems have "k = a" by simp
    with False show ?thesis
      by (simp add: fold_axis_other AList.update_conv' map_of_perform_update_other)
  qed
qed

lemma update_axes_preserve:
  assumes "p \<notin> fst ` set kw"
  shows "get_path (update_axes q lay kw) [k, p] = get_path lay [k, p]"
proof (cases "k \<in> set (select_axes q lay)")
  case True
  from fold_axis_preserve [OF True, of kw lay] obtain d where
    d: "map_of (update_axes q lay kw) k = Some (PDict d)"
      "\<forall>p. p \<notin> fst ` set kw \<longrightarrow> map_of d p = map_of (compound lay k) p"
    by (auto simp: update_axes_def)
  from d(1) have "compound (update_axes q lay kw) k = d" by (simp add: compound_def)
  with d(2) assms show ?thesis by (simp add: get_path_compound del: get_path.simps)
next
  case False
  then have "map_of (update_axes q lay kw) k = map_of lay k"
    by (simp add: update_axes_def fold_axis_other)
  then have "compound (update_axes q lay kw) k = compound lay k" by (rule compound_cong)
  then show ?thesis by (simp add: get_path_compound del: get_path.simps)
qed

lemma perform_update_preserve:
  assumes "k \<notin> fst ` set kw"
  shows "get_path (perform_update lay kw) [k, p] = get_path lay [k, p]"
  using map_of_perform_update_other [OF assms, of lay, THEN compound_cong]
  by (simp add: get_path_compound del: get_path.simps)

lemma themed_other:
  assumes "k \<notin> fst ` set layout_kwargs" "\<not> is_axis_key ''xaxis'' k" "\<not> is_axis_key ''yaxis'' k"
  shows "map_of (themed lay) k = map_of lay k"
proof -
  from assms(2,3) have "k \<noteq> ''xaxis''" "k \<noteq> ''yaxis''" by (auto simp: axis_key_self)
  with assms show ?thesis by (simp add: themed_top map_of_perform_update_other)
qed

lemma themed_template: "map_of (themed lay) ''template'' = map_of lay ''template''"
  by (rule themed_other) (simp_all add: layout_kwargs_def is_axis_key_def)

lemma initialize_template: 
  "map_of (initialize_layout_template tmpl lay) ''template'' \<noteq> None \<and>
   map_of (initialize_layout_template tmpl lay) ''template'' \<noteq> Some PNone \<or> tmpl = None"
  by (cases tmpl) (auto simp: initialize_layout_template_def AList.update_conv')

lemma initialize_themed:
  "initialize_layout_template tmpl (themed (initialize_layout_template tmpl lay)) =
     themed (initialize_layout_template tmpl lay)"
  using initialize_template [of tmpl lay]
  by (subst initialize_layout_template_def) (auto simp: themed_template)

lemma initialize_other:
  "k \<noteq> ''template'' \<Longrightarrow> map_of (initialize_layout_template tmpl lay) k = map_of lay k"
  by (cases tmpl) (auto simp: initialize_layout_template_def AList.update_conv')

lemma themed_font_other:
  assumes "p \<notin> fst ` set font_dict"
  shows "get_path (themed lay) [''font'', p] = get_path lay [''font'', p]"
proof -
  have "map_of (themed lay) ''font'' = map_of (perform_update lay layout_kwargs) ''font''"
    by (rule themed_top) (simp_all add: is_axis_key_def)
  also have "\<dots> = Some (PDict (perform_update (compound lay ''font'') font_dict))"
    by (simp add: layout_kwargs_def AList.update_conv')
  finally have "compound (themed lay) ''font'' = perform_update (compound lay ''font'') font_dict"
    by (simp add: compound_def)
  with assms show ?thesis
    by (simp add: get_path_compound map_of_perform_update_other del: get_path.simps)
qed

lemma themed_margin_other:
  assumes "p \<notin> fst ` set margin_dict"
  shows "get_path (themed lay) [''margin'', p] = get_path lay [''margin'', p]"
proof -
  have "map_of (themed lay) ''margin'' = map_of (perform_update lay layout_kwargs) ''margin''"
    by (rule themed_top) (simp_all add: is_axis_key_def)
  also have "\<dots> = Some (PDict (perform_update (compound lay ''margin'') margin_dict))"
    by (simp add: layout_kwargs_def AList.update_conv' compound_def)
  finally have "compound (themed lay) ''margin'' = perform_update (compound lay ''margin'') margin_dict"
    by (simp add: compound_def)
  with assms show ?thesis
    by (simp add: get_path_compound map_of_perform_update_other del: get_path.simps)
qed

lemma themed_xaxis_other:
  assumes "is_axis_key ''xaxis'' k" "p \<notin> fst ` set xaxes_kwargs"
  shows "get_path (themed lay) [k, p] = get_path lay [k, p]"
proof -
  from assms(1) have ny: "\<not> is_axis_key ''yaxis'' k" "k \<noteq> ''yaxis''" "k \<notin> fst ` set layout_kwargs"
    by (auto simp: is_axis_key_def layout_kwargs_def)
  have "get_path (themed lay) [k, p] =
      get_path (update_axes ''yaxis'' (perform_update lay layout_kwargs) yaxes_kwargs) [k, p]"
    unfolding themed_def using assms(2) by (rule update_axes_preserve)
  also have "\<dots> = get_path (perform_update lay layout_kwargs) [k, p]"
    using ny update_axes_other [of k "''yaxis''" "perform_update lay layout_kwargs" yaxes_kwargs,
      THEN compound_cong]
    by (simp add: get_path_compound del: get_path.simps)
  also have "\<dots> = get_path lay [k, p]"
    using ny(3) by (rule perform_update_preserve)
  finally show ?thesis .
qed

lemma themed_yaxis_other:
  assumes "is_axis_key ''yaxis'' k" "p \<notin> fst ` set yaxes_kwargs"
  shows "get_path (themed lay) [k, p] = get_path lay [k, p]"
proof -
  from assms(1) have nx: "\<not> is_axis_key ''xaxis'' k" "k \<noteq> ''xaxis''" "k \<notin> fst ` set layout_kwargs"
    by (auto simp: is_axis_key_def layout_kwargs_def)
  have "get_path (themed lay) [k, p] =
      get_path (update_axes ''yaxis'' (perform_update lay layout_kwargs) yaxes_kwargs) [k, p]"
    unfolding themed_def
    using nx update_axes_other [of k "''xaxis''"
        "update_axes ''yaxis'' (perform_update lay layout_kwargs) yaxes_kwargs" xaxes_kwargs,
      THEN compound_cong]
    by (simp add: get_path_compound del: get_path.simps)
  also have "\<dots> = get_path (perform_update lay layout_kwargs) [k, p]"
    using assms(2) by (rule update_axes_preserve)
  also have "\<dots> = get_path lay [k, p]"
    using nx(3) by (rule perform_update_preserve)
  finally show ?thesis .
qed

lemma themed_axis_keys_styled:
  "k \<in> fst ` set (themed lay) \<Longrightarrow> is_axis_key ''xaxis'' k \<or> is_axis_key ''yaxis'' k \<Longrightarrow>
   axis_styled (themed lay) k"
  by (intro themed_axes_styled) (auto simp: set_select_axes)

lemma get_path_initialize:
  "k \<noteq> ''template'' \<Longrightarrow>
   get_path (initialize_layout_template tmpl lay) [k, p] = get_path lay [k, p]"
  using initialize_other [of k tmpl lay, THEN compound_cong]
  by (simp add: get_path_compound del: get_path.simps)

lemma axis_key_not_template:
  "is_axis_key ''xaxis'' k \<or> is_axis_key ''yaxis'' k \<Longrightarrow> k \<noteq> ''template''"
  by (auto simp: is_axis_key_def)

lemma fig0_styled_layout_keys:
  "fst ` set (fig_layout (fst (style_to_matplotlib tmpl [fig0] 0) ! snd (style_to_matplotlib tmpl [fig0] 0))) =
   (if tmpl = None then {} else {''template''}) \<union>
   {''xaxis'', ''yaxis'', ''font'', ''width'', ''xaxis2'', ''plot_bgcolor'', ''height'', ''margin''}"
  by (auto simp: style_to_matplotlib_heap themed_keys fig0_def layout_kwargs_def compound_def
      initialize_layout_template_def split: option.splits)

subsection \<open>The claims about \<^verbatim>\<open>style_to_matplotlib\<close>\<close>

text \<open>
  Claim C1. For every figure and every default template of the engine,
  \<^verbatim>\<open>style_to_matplotlib\<close> returns a new figure object: its reference is fresh and every
  object that existed before the call (the argument among them) is unchanged. The new
  object is a copy of the argument with the theme applied: it holds the argument's
  traces; its layout reads back every constant of the theme (font, background, size,
  margins, and the axis settings on every x and y axis); every other property is the
  argument's: the top-level properties the theme does not name, the other properties of
  the font, of the margins and of every axis. The constructor alone adds the engine's
  default template when the argument has none. The two objects are independent: a later
  update of one leaves the other as it is.
\<close>

theorem style_returns_independent_copy:
  assumes "fig < length h"
  shows "case style_to_matplotlib tmpl h fig of (h', r) \<Rightarrow>
     (let old = fig_layout (h ! fig); lay = fig_layout (h' ! r)
      in r = length h \<and> r \<noteq> fig \<and> length h' = Suc (length h) \<and>
         (\<forall>i < length h. h' ! i = h ! i) \<and>
         h' ! fig = h ! fig \<and>
         (\<forall>kw. update_layout h' r kw ! fig = h ! fig \<and>
               update_xaxes h' r kw ! fig = h ! fig \<and>
               update_yaxes h' r kw ! fig = h ! fig \<and>
               update_layout h' fig kw ! r = h' ! r \<and>
               update_xaxes h' fig kw ! r = h' ! r \<and>
               update_yaxes h' fig kw ! r = h' ! r) \<and>
         fig_data (h' ! r) = fig_data (h ! fig) \<and>
         lay = update_axes ''xaxis''
                 (update_axes ''yaxis''
                    (perform_update (initialize_layout_template tmpl old) layout_kwargs)
                    yaxes_kwargs) xaxes_kwargs \<and>
         get_path lay [''font'', ''family''] = Some (PStr ''Arial'') \<and>
         get_path lay [''font'', ''size''] = Some (PInt 26) \<and>
         get_path lay [''font'', ''color''] = Some (PStr ''black'') \<and>
         get_path lay [''plot_bgcolor''] = Some (PStr ''white'') \<and>
         get_path lay [''width''] = Some (PInt 850) \<and>
         get_path lay [''height''] = Some (PInt 700) \<and>
         get_path lay [''margin'', ''r''] = Some (PInt 20) \<and>
         get_path lay [''margin'', ''t''] = Some (PInt 20) \<and>
         get_path lay [''margin'', ''b''] = Some (PInt 10) \<and>
         (\<forall>k \<in> fst ` set lay.
            is_axis_key ''xaxis'' k \<or> is_axis_key ''yaxis'' k \<longrightarrow> axis_styled lay k) \<and>
         (\<forall>k. k \<notin> {''font'', ''plot_bgcolor'', ''width'', ''height'', ''margin'', ''template''} \<and>
              \<not> is_axis_key ''xaxis'' k \<and> \<not> is_axis_key ''yaxis'' k \<longrightarrow>
              map_of lay k = map_of old k) \<and>
         map_of lay ''template'' = map_of (initialize_layout_template tmpl old) ''template'' \<and>
         (\<forall>p. p \<notin> {''family'', ''size'', ''color''} \<longrightarrow>
              get_path lay [''font'', p] = get_path old [''font'', p]) \<and>
         (\<forall>p. p \<notin> {''r'', ''t'', ''b''} \<longrightarrow>
              get_path lay [''margin'', p] = get_path old [''margin'', p]) \<and>
         (\<forall>k p. is_axis_key ''xaxis'' k \<and> p \<notin> fst ` set xaxes_kwargs \<longrightarrow>
              get_path lay [k, p] = get_path old [k, p]) \<and>
         (\<forall>k p. is_axis_key ''yaxis'' k \<and> p \<notin> fst ` set yaxes_kwargs \<longrightarrow>
              get_path lay [k, p] = get_path old [k, p]))"
proof -
  let ?old = "fig_layout (h ! fig)"
  let ?ini = "initialize_layout_template tmpl ?old"
  let ?lay = "themed ?ini"
  let ?h' = "h @ [(h ! fig)\<lparr>fig_layout := ?lay\<rparr>]"
  have sty: "style_to_matplotlib tmpl h fig = (?h', length h)"
    by (rule style_to_matplotlib_heap)
  have frame: "length h \<noteq> fig \<and> length ?h' = Suc (length h) \<and>
      (\<forall>i < length h. ?h' ! i = h ! i) \<and> ?h' ! fig = h ! fig \<and>
      (\<forall>kw. update_layout ?h' (length h) kw ! fig = h ! fig \<and>
            update_xaxes ?h' (length h) kw ! fig = h ! fig \<and>
            update_yaxes ?h' (length h) kw ! fig = h ! fig \<and>
            update_layout ?h' fig kw ! length h = ?h' ! length h \<and>
            update_xaxes ?h' fig kw ! length h = ?h' ! length h \<and>
            update_yaxes ?h' fig kw ! length h = ?h' ! length h)"
    using assms
    by (auto simp: nth_append update_layout_def update_xaxes_def update_yaxes_def)
  have copy: "fig_data (?h' ! length h) = fig_data (h ! fig)"
    "fig_layout (?h' ! length h) = ?lay" by simp_all
  have eq: "?lay = update_axes ''xaxis''
      (update_axes ''yaxis'' (perform_update ?ini layout_kwargs) yaxes_kwargs) xaxes_kwargs"
    by (simp add: themed_def)
  note theme = themed_layout_fields [of ?ini]
  have axes: "\<forall>k \<in> fst ` set ?lay.
      is_axis_key ''xaxis'' k \<or> is_axis_key ''yaxis'' k \<longrightarrow> axis_styled ?lay k"
    using themed_axis_keys_styled by blast
  have other: "map_of ?lay k = map_of ?old k"
    if "k \<notin> {''font'', ''plot_bgcolor'', ''width'', ''height'', ''margin'', ''template''} \<and>
        \<not> is_axis_key ''xaxis'' k \<and> \<not> is_axis_key ''yaxis'' k" for k
  proof -
    from that have "k \<notin> fst ` set layout_kwargs" by (simp add: layout_kwargs_def)
    with that have "map_of ?lay k = map_of ?ini k" by (simp add: themed_other)
    with that show ?thesis by (simp add: initialize_other)
  qed
  have tmpl: "map_of ?lay ''template'' = map_of ?ini ''template''"
    by (rule themed_template)
  have font: "get_path ?lay [''font'', p] = get_path ?old [''font'', p]"
    if "p \<notin> {''family'', ''size'', ''color''}" for p
  proof -
    from that have "p \<notin> fst ` set font_dict" by (simp add: font_dict_def)
    then have "get_path ?lay [''font'', p] = get_path ?ini [''font'', p]"
      by (rule themed_font_other)
    moreover have "get_path ?ini [''font'', p] = get_path ?old [''font'', p]"
      by (rule get_path_initialize) simp
    ultimately show ?thesis by simp
  qed
  have margin: "get_path ?lay [''margin'', p] = get_path ?old [''margin'', p]"
    if "p \<notin> {''r'', ''t'', ''b''}" for p
  proof -
    from that have "p \<notin> fst ` set margin_dict" by (simp add: margin_dict_def)
    then have "get_path ?lay [''margin'', p] = get_path ?ini [''margin'', p]"
      by (rule themed_margin_other)
    moreover have "get_path ?ini [''margin'', p] = get_path ?old [''margin'', p]"
      by (rule get_path_initialize) simp
    ultimately show ?thesis by simp
  qed
  have xax: "get_path ?lay [k, p] = get_path ?old [k, p]"
    if "is_axis_key ''xaxis'' k \<and> p \<notin> fst ` set xaxes_kwargs" for k p
  proof -
    from that have "get_path ?lay [k, p] = get_path ?ini [k, p]"
      by (intro themed_xaxis_other) blast+
    moreover from that have "get_path ?ini [k, p] = get_path ?old [k, p]"
      by (intro get_path_initialize axis_key_not_template) blast
    ultimately show ?thesis by simp
  qed
  have yax: "get_path ?lay [k, p] = get_path ?old [k, p]"
    if "is_axis_key ''yaxis'' k \<and> p \<notin> fst ` set yaxes_kwargs" for k p
  proof -
    from that have "get_path ?lay [k, p] = get_path ?ini [k, p]"
      by (intro themed_yaxis_other) blast+
    moreover from that have "get_path ?ini [k, p] = get_path ?old [k, p]"
      by (intro get_path_initialize axis_key_not_template) blast
    ultimately show ?thesis by simp
  qed
  show ?thesis
    unfolding sty split_conv Let_def copy
    using frame copy(1) eq theme axes other tmpl font margin xax yax
    by (intro conjI) (blast | simp)+
qed

theorem style_returns_independent_copy_witness:
  "(0::nat) < length [fig0] \<and>
   snd (style_to_matplotlib (Some template0) [fig0] 0) = 1 \<and>
   fst (style_to_matplotlib (Some template0) [fig0] 0) ! 0 = fig0 \<and>
   fig_data (fst (style_to_matplotlib (Some template0) [fig0] 0) ! 1) = fig_data fig0 \<and>
   get_path (fig_layout fig0) [''width''] = Some (PInt 100) \<and>
   get_path (fig_layout (fst (style_to_matplotlib (Some template0) [fig0] 0) ! 1)) [''width'']
     = Some (PInt 850) \<and>
   get_path (fig_layout (fst (style_to_matplotlib (Some template0) [fig0] 0) ! 1)) [''font'', ''family'']
     = Some (PStr ''Arial'') \<and>
   get_path (fig_layout (fst (style_to_matplotlib (Some template0) [fig0] 0) ! 1)) [''font'', ''style'']
     = Some (PStr ''italic'') \<and>
   axis_styled (fig_layout (fst (style_to_matplotlib (Some template0) [fig0] 0) ! 1)) ''xaxis2'' \<and>
   map_of (fig_layout (fst (style_to_matplotlib (Some template0) [fig0] 0) ! 1)) ''template''
     = Some (PDict template0) \<and>
   update_layout (fst (style_to_matplotlib (Some template0) [fig0] 0)) 1 [(''width'', PInt 5)] ! 0 = fig0"
proof -
  let ?h = "fst (style_to_matplotlib (Some template0) [fig0] 0)"
  let ?r = "snd (style_to_matplotlib (Some template0) [fig0] 0)"
  let ?lay = "fig_layout (?h ! ?r)"
  have len: "(0::nat) < length [fig0]" by simp
  note th = style_returns_independent_copy [OF len, where tmpl = "Some template0", unfolded split_def Let_def]
  from th [THEN conjunct1] have r: "?r = 1" by simp
  from th [THEN conjunct2, THEN conjunct2, THEN conjunct2, THEN conjunct2, THEN conjunct1] have old: "?h ! 0 = [fig0] ! 0" .
  from th [THEN conjunct2, THEN conjunct2, THEN conjunct2, THEN conjunct2, THEN conjunct2, THEN conjunct2, THEN conjunct1] have data: "fig_data (?h ! ?r) = fig_data ([fig0] ! 0)" .
  from th [THEN conjunct2, THEN conjunct2, THEN conjunct2, THEN conjunct2, THEN conjunct2, THEN conjunct2, THEN conjunct2, THEN conjunct2, THEN conjunct2, THEN conjunct2, THEN conjunct2, THEN conjunct2, THEN conjunct1] have width: "get_path ?lay [''width''] = Some (PInt 850)" .
  from th [THEN conjunct2, THEN conjunct2, THEN conjunct2, THEN conjunct2, THEN conjunct2, THEN conjunct2, THEN conjunct2, THEN conjunct2, THEN conjunct1] have family: "get_path ?lay [''font'', ''family''] = Some (PStr ''Arial'')" .
  from th [THEN conjunct2, THEN conjunct2, THEN conjunct2, THEN conjunct2, THEN conjunct2, THEN conjunct2, THEN conjunct2, THEN conjunct2, THEN conjunct2, THEN conjunct2, THEN conjunct2, THEN conjunct2, THEN conjunct2, THEN conjunct2, THEN conjunct2, THEN conjunct2, THEN conjunct2, THEN conjunct2, THEN conjunct2, THEN conjunct2, THEN conjunct1] have font: "\<forall>p. p \<notin> {''family'', ''size'', ''color''} \<longrightarrow>
      get_path ?lay [''font'', p] = get_path (fig_layout ([fig0] ! 0)) [''font'', p]" .
  then have "get_path ?lay [''font'', ''style''] = get_path (fig_layout ([fig0] ! 0)) [''font'', ''style'']"
    by (simp del: get_path.simps)
  then have style: "get_path ?lay [''font'', ''style''] = Some (PStr ''italic'')"
    by (simp add: fig0_def)
  from th [THEN conjunct2, THEN conjunct2, THEN conjunct2, THEN conjunct2, THEN conjunct2, THEN conjunct2, THEN conjunct2, THEN conjunct2, THEN conjunct2, THEN conjunct2, THEN conjunct2, THEN conjunct2, THEN conjunct2, THEN conjunct2, THEN conjunct2, THEN conjunct2, THEN conjunct2, THEN conjunct1] have axes: "\<forall>k \<in> fst ` set ?lay.
      is_axis_key ''xaxis'' k \<or> is_axis_key ''yaxis'' k \<longrightarrow> axis_styled ?lay k" .
  have ax: "is_axis_key ''xaxis'' ''xaxis2''" by (simp add: is_axis_key_def is_digit_def)
  have key: "''xaxis2'' \<in> fst ` set ?lay" by (simp add: fig0_styled_layout_keys)
  from axes key ax have axis: "axis_styled ?lay ''xaxis2''" by blast
  from th [THEN conjunct2, THEN conjunct2, THEN conjunct2, THEN conjunct2, THEN conjunct2, THEN conjunct2, THEN conjunct2, THEN conjunct2, THEN conjunct2, THEN conjunct2, THEN conjunct2, THEN conjunct2, THEN conjunct2, THEN conjunct2, THEN conjunct2, THEN conjunct2, THEN conjunct2, THEN conjunct2, THEN conjunct2, THEN conjunct1] have "map_of ?lay ''template'' =
      map_of (initialize_layout_template (Some template0) (fig_layout ([fig0] ! 0))) ''template''" .
  then have tmpl: "map_of ?lay ''template'' = Some (PDict template0)"
    by (simp add: initialize_layout_template_def fig0_def)
  from th [THEN conjunct2, THEN conjunct2, THEN conjunct2, THEN conjunct2, THEN conjunct2, THEN conjunct1] have "\<forall>kw. update_layout ?h ?r kw ! 0 = [fig0] ! 0" by blast
  then have upd: "update_layout ?h ?r [(''width'', PInt 5)] ! 0 = [fig0] ! 0" by blast
  have w0: "get_path (fig_layout fig0) [''width''] = Some (PInt 100)" by (simp add: fig0_def)
  from len r old data width family style axis tmpl upd w0 show ?thesis by simp
qed

text \<open>
  Claim C2. Styling is idempotent on the visual properties: the layout (which holds
  every cosmetic setting: font, background, size, margins, axis lines and ticks) of
  the figure styled twice equals the layout of the figure styled once, and so do the
  traces.
\<close>

theorem style_idempotent:
  assumes "fig < length h"
  shows "case style_to_matplotlib tmpl h fig of (h1, r1) \<Rightarrow>
         case style_to_matplotlib tmpl h1 r1 of (h2, r2) \<Rightarrow>
           fig_layout (h2 ! r2) = fig_layout (h1 ! r1) \<and>
           fig_data (h2 ! r2) = fig_data (h1 ! r1)"
  by (simp add: style_to_matplotlib_heap initialize_themed themed_idem nth_append)

theorem style_idempotent_witness:
  "(0::nat) < length [fig0] \<and>
   fig_layout (fst (style_to_matplotlib (Some template0) (fst (style_to_matplotlib (Some template0) [fig0] 0))
                     (snd (style_to_matplotlib (Some template0) [fig0] 0))) !
               snd (style_to_matplotlib (Some template0) (fst (style_to_matplotlib (Some template0) [fig0] 0))
                     (snd (style_to_matplotlib (Some template0) [fig0] 0)))) =
   fig_layout (fst (style_to_matplotlib (Some template0) [fig0] 0) !
               snd (style_to_matplotlib (Some template0) [fig0] 0))"
proof -
  have len: "(0::nat) < length [fig0]" by simp
  from style_idempotent [OF len, where tmpl = "Some template0"] len show ?thesis
    by (simp add: split_def)
qed

text \<open>
  Claim C9. Whatever the styling of the input figure, the returned figure has the fixed
  constants: font Arial, 26, black; white plot background; width 850 and height 700;
  margins r = 20, t = 20, b = 10; and every x axis and y axis of its layout (the layout
  has at least \<^verbatim>\<open>xaxis\<close> and \<^verbatim>\<open>yaxis\<close>) shows its line, has black lines and ticks of
  width 2.4, ticks outside, mirrored as \<^verbatim>\<open>allticks\<close>. So any two styled figures agree on
  these fields.
\<close>

theorem style_fixed_constants:
  assumes "fig < length h"
  shows "case style_to_matplotlib tmpl h fig of (h', r) \<Rightarrow>
     (let lay = fig_layout (h' ! r) in
        get_path lay [''font'', ''family''] = Some (PStr ''Arial'') \<and>
        get_path lay [''font'', ''size''] = Some (PInt 26) \<and>
        get_path lay [''font'', ''color''] = Some (PStr ''black'') \<and>
        get_path lay [''plot_bgcolor''] = Some (PStr ''white'') \<and>
        get_path lay [''width''] = Some (PInt 850) \<and>
        get_path lay [''height''] = Some (PInt 700) \<and>
        get_path lay [''margin'', ''r''] = Some (PInt 20) \<and>
        get_path lay [''margin'', ''t''] = Some (PInt 20) \<and>
        get_path lay [''margin'', ''b''] = Some (PInt 10) \<and>
        ''xaxis'' \<in> fst ` set lay \<and> ''yaxis'' \<in> fst ` set lay \<and>
        (\<forall>k \<in> fst ` set lay.
           is_axis_key ''xaxis'' k \<or> is_axis_key ''yaxis'' k \<longrightarrow> axis_styled lay k))"
proof -
  let ?t = "themed (initialize_layout_template tmpl (fig_layout (h ! fig)))"
  have "axis_styled ?t k" if "k \<in> fst ` set ?t" "is_axis_key ''xaxis'' k \<or> is_axis_key ''yaxis'' k" for k
    using that by (intro themed_axes_styled) (auto simp: set_select_axes)
  moreover have "''xaxis'' \<in> fst ` set ?t" "''yaxis'' \<in> fst ` set ?t"
    by (simp_all add: themed_keys)
  ultimately show ?thesis
    using themed_layout_fields [of "initialize_layout_template tmpl (fig_layout (h ! fig))"]
    by (simp add: style_to_matplotlib_heap Let_def)
qed

theorem style_fixed_constants_witness:
  "(0::nat) < length [fig0] \<and>
   get_path (fig_layout (fst (style_to_matplotlib None [fig0] 0) ! snd (style_to_matplotlib None [fig0] 0)))
     [''font'', ''family''] = Some (PStr ''Arial'') \<and>
   get_path (fig_layout (fst (style_to_matplotlib None [fig0] 0) ! snd (style_to_matplotlib None [fig0] 0)))
     [''width''] = Some (PInt 850) \<and>
   axis_styled (fig_layout (fst (style_to_matplotlib None [fig0] 0) ! snd (style_to_matplotlib None [fig0] 0)))
     ''xaxis2''"
proof -
  let ?lay = "fig_layout (fst (style_to_matplotlib None [fig0] 0) ! snd (style_to_matplotlib None [fig0] 0))"
  have len: "(0::nat) < length [fig0]" by simp
  have ax: "is_axis_key ''xaxis'' ''xaxis2''" by (simp add: is_axis_key_def is_digit_def)
  have key: "''xaxis2'' \<in> fst ` set ?lay" by (simp add: fig0_styled_layout_keys)
  have all: "get_path ?lay [''font'', ''family''] = Some (PStr ''Arial'') \<and>
      get_path ?lay [''width''] = Some (PInt 850) \<and>
      (\<forall>k \<in> fst ` set ?lay.
         is_axis_key ''xaxis'' k \<or> is_axis_key ''yaxis'' k \<longrightarrow> axis_styled ?lay k)"
    using style_fixed_constants [OF len, where tmpl = None] by (simp add: split_def Let_def)
  then have "axis_styled ?lay ''xaxis2''" using key ax by blast
  with all len show ?thesis by blast
qed

section \<open>Properties of \<^verbatim>\<open>save\<close>\<close>

subsection \<open>Strings and timestamps\<close>

lemma str_split_nonempty: "str_split sep s \<noteq> []"
  by (induction s) (auto split: list.splits)

lemma str_split_plain: "sep \<notin> set s \<Longrightarrow> str_split sep s = [s]"
  by (induction s) auto

lemma str_split_append:
  "sep \<notin> set b \<Longrightarrow>
   str_split sep (a @ b) = butlast (str_split sep a) @ [last (str_split sep a) @ b]"
proof (induction a)
  case Nil
  then show ?case by (simp add: str_split_plain)
next
  case (Cons c a)
  then show ?case
    using str_split_nonempty [of sep a] str_split_nonempty [of sep "a @ b"]
    by (auto split: list.splits simp: butlast_append)
qed

lemma is_digit_digit_char: "is_digit (digit_char n)"
  unfolding is_digit_def digit_char_def by (rule nth_mem) simp

lemma digit_char_inj: "digit_char n = digit_char m \<Longrightarrow> n mod 10 = m mod 10"
proof -
  assume "digit_char n = digit_char m"
  moreover have "distinct ''0123456789''" by simp
  moreover have "n mod 10 < length ''0123456789''" "m mod 10 < length ''0123456789''" by simp_all
  ultimately show ?thesis
    unfolding digit_char_def by (simp only: nth_eq_iff_index_eq)
qed

lemma length_zero_pad [simp]: "length (zero_pad w n) = w"
  by (induction w arbitrary: n) auto

lemma zero_pad_digits: "c \<in> set (zero_pad w n) \<Longrightarrow> is_digit c"
  by (induction w arbitrary: n) (auto simp: is_digit_digit_char)

lemma zero_pad_inj:
  "zero_pad w n = zero_pad w m \<Longrightarrow> n < 10 ^ w \<Longrightarrow> m < 10 ^ w \<Longrightarrow> n = m"
proof (induction w arbitrary: n m)
  case 0
  then show ?case by simp
next
  case (Suc w)
  from Suc.prems(1) have eq: "zero_pad w (n div 10) = zero_pad w (m div 10)"
    and d: "digit_char n = digit_char m" by simp_all
  from Suc.prems(2,3) have "n div 10 < 10 ^ w" "m div 10 < 10 ^ w"
    by (simp_all add: less_mult_imp_div_less mult.commute)
  with Suc.IH eq have "n div 10 = m div 10" by blast
  moreover from d have "n mod 10 = m mod 10" by (rule digit_char_inj)
  ultimately show ?case by (metis div_mult_mod_eq)
qed

lemma timestamp_eq:
  "strftime timestamp_format d =
     zero_pad 4 (dt_year d) @ ''-'' @ zero_pad 2 (dt_month d) @ ''-'' @ zero_pad 2 (dt_day d) @
     ''_'' @ zero_pad 2 (dt_hour d) @ ''-'' @ zero_pad 2 (dt_minute d) @ ''-'' @
     zero_pad 2 (dt_second d) @ ''-'' @ zero_pad 6 (dt_microsecond d)"
  by (simp add: timestamp_format_def directive_def)

lemma zero_pad_numeral:
  "zero_pad (numeral k) n = zero_pad (pred_numeral k) (n div 10) @ [digit_char n]"
  by (metis numeral_eq_Suc zero_pad.simps(2))

lemma zero_pad_1: "zero_pad 1 n = [digit_char n]"
  by (metis One_nat_def append_Nil zero_pad.simps)

lemma timestamp_has_format:
  "has_format ''YYYY-MM-DD_HH-MM-SS-ffffff'' (strftime timestamp_format d)"
  by (simp add: timestamp_eq zero_pad_numeral zero_pad_1 is_digit_digit_char)

lemma timestamp_length: "length (strftime timestamp_format d) = 26"
  by (simp add: timestamp_eq)

lemma timestamp_no_sep: "CHR ''/'' \<notin> set (strftime timestamp_format d)"
  by (auto simp: timestamp_eq is_digit_def dest!: zero_pad_digits)

lemma timestamp_inj:
  assumes "valid_datetime d" "valid_datetime e"
    and "strftime timestamp_format d = strftime timestamp_format e"
  shows "d = e"
proof -
  from assms(3) have
    "zero_pad 4 (dt_year d) = zero_pad 4 (dt_year e)"
    "zero_pad 2 (dt_month d) = zero_pad 2 (dt_month e)"
    "zero_pad 2 (dt_day d) = zero_pad 2 (dt_day e)"
    "zero_pad 2 (dt_hour d) = zero_pad 2 (dt_hour e)"
    "zero_pad 2 (dt_minute d) = zero_pad 2 (dt_minute e)"
    "zero_pad 2 (dt_second d) = zero_pad 2 (dt_second e)"
    "zero_pad 6 (dt_microsecond d) = zero_pad 6 (dt_microsecond e)"
    by (simp_all add: timestamp_eq)
  moreover from assms(1,2) have
    "dt_year d < 10 ^ 4" "dt_year e < 10 ^ 4"
    "dt_month d < 10 ^ 2" "dt_month e < 10 ^ 2"
    "dt_day d < 10 ^ 2" "dt_day e < 10 ^ 2"
    "dt_hour d < 10 ^ 2" "dt_hour e < 10 ^ 2"
    "dt_minute d < 10 ^ 2" "dt_minute e < 10 ^ 2"
    "dt_second d < 10 ^ 2" "dt_second e < 10 ^ 2"
    "dt_microsecond d < 10 ^ 6" "dt_microsecond e < 10 ^ 6"
    by (simp_all add: valid_datetime_def)
  ultimately have
    "dt_year d = dt_year e" "dt_month d = dt_month e" "dt_day d = dt_day e"
    "dt_hour d = dt_hour e" "dt_minute d = dt_minute e" "dt_second d = dt_second e"
    "dt_microsecond d = dt_microsecond e"
    by (blast intro: zero_pad_inj)+
  then show ?thesis by simp
qed

subsection \<open>Paths\<close>

lemma splitroot_append:
  assumes "take 1 rest \<noteq> ''/''"
  shows "splitroot (name @ rest) = (fst (splitroot name), snd (splitroot name) @ rest)"
proof (cases name)
  case Nil
  with assms show ?thesis by (simp add: splitroot_def)
next
  case (Cons a as)
  note 1 = this
  show ?thesis
  proof (cases as)
    case Nil
    with 1 assms show ?thesis by (cases rest) (auto simp: splitroot_def)
  next
    case (Cons b bs)
    note 2 = this
    show ?thesis
    proof (cases bs)
      case Nil
      with 1 2 assms show ?thesis by (cases rest) (auto simp: splitroot_def)
    next
      case (Cons c cs)
      with 1 2 show ?thesis by (auto simp: splitroot_def)
    qed
  qed
qed

lemma parse_name_rest:
  assumes "CHR ''/'' \<notin> set rest" and "2 \<le> length rest"
  shows "parse_path (name @ rest) =
           Path (fst (splitroot name)) (name_dirs name @ [name_base name @ rest])"
proof -
  from assms have t: "take 1 rest \<noteq> ''/''" by (cases rest) auto
  have ok: "name_base name @ rest \<noteq> '''' \<and> name_base name @ rest \<noteq> ''.''"
    using assms(2) by (cases rest) (auto simp: append_eq_Cons_conv)
  show ?thesis
    using ok
    by (simp add: parse_path_def splitroot_append [OF t] str_split_append [OF assms(1)]
        name_dirs_def name_base_def name_rel_def)
qed

lemma splitroot_plain: "CHR ''/'' \<notin> set name \<Longrightarrow> splitroot name = ('''', name)"
  by (cases name) (auto simp: splitroot_def)

lemma name_plain:
  assumes "CHR ''/'' \<notin> set name"
  shows "name_dirs name = []" and "name_base name = name" and "fst (splitroot name) = ''''"
  using assms by (simp_all add: name_dirs_def name_base_def name_rel_def splitroot_plain str_split_plain)

lemma join_sep_snoc: "xs \<noteq> [] \<Longrightarrow> join_sep sep (xs @ [x]) = join_sep sep xs @ sep @ x"
  by (induction sep xs rule: join_sep.induct) auto

lemma parse_save_file:
  "parse_path (save_file now name) =
     Path (fst (splitroot name))
       (name_dirs name @ [name_base name @ ''_'' @ strftime timestamp_format now @ ''.html''])"
  unfolding save_file_def
  using parse_name_rest [of "''_'' @ strftime timestamp_format now @ ''.html''" name]
  by (simp add: timestamp_no_sep)

lemma anchor_name: "fst (splitroot name) = '''' \<longleftrightarrow> take 1 name \<noteq> ''/''"
  by (auto simp: splitroot_def)

lemma save_path:
  "joinpath path (save_file now name) =
     (if take 1 name = ''/''
      then Path (fst (splitroot name))
             (name_dirs name @ [name_base name @ ''_'' @ strftime timestamp_format now @ ''.html''])
      else Path (anchor path)
             (names path @ name_dirs name @
              [name_base name @ ''_'' @ strftime timestamp_format now @ ''.html'']))"
  by (simp add: joinpath_def parse_save_file anchor_name)

lemma save_path_name:
  "path_name (joinpath path (save_file now name)) =
     name_base name @ ''_'' @ strftime timestamp_format now @ ''.html''"
  by (simp add: save_path path_name_def)

lemma save_path_inj:
  assumes "valid_datetime d" "valid_datetime e"
    and "joinpath path (save_file d name) = joinpath path (save_file e name)"
  shows "d = e"
proof -
  from assms(3) have "path_name (joinpath path (save_file d name)) =
      path_name (joinpath path (save_file e name))" by simp
  then have "strftime timestamp_format d = strftime timestamp_format e"
    by (simp add: save_path_name)
  with assms(1,2) show ?thesis by (rule timestamp_inj)
qed

lemma leaf_plain: "b @ ''_'' @ t @ ''.html'' \<noteq> ''..''"
proof
  assume "b @ ''_'' @ t @ ''.html'' = ''..''"
  then have "last ((b @ ''_'' @ t) @ ''.html'') = last ''..''" by simp
  then show False by (simp only: last_append) simp
qed

subsection \<open>The file system\<close>

lemma walk_append:
  "walk fs cur (xs @ ys) = (case walk fs cur xs of Inl e \<Rightarrow> Inl e | Inr c \<Rightarrow> walk fs c ys)"
  by (induction xs arbitrary: cur) (auto split: option.splits node.splits)

lemma walk_kept:
  assumes "walk fs cur cs = Inr l"
    and "\<And>x w. fs x = Some (Dir w) \<Longrightarrow> \<exists>w'. fs' x = Some (Dir w')"
  shows "walk fs' cur cs = Inr l"
  using assms(1)
proof (induction cs arbitrary: cur)
  case Nil
  then show ?case by simp
next
  case (Cons c cs)
  from Cons.prems obtain w where d: "fs cur = Some (Dir w)"
    by (auto split: option.splits node.splits)
  with assms(2) obtain w' where d': "fs' cur = Some (Dir w')" by blast
  from Cons.prems d have "walk fs (if c = ''..'' then butlast cur else cur @ [c]) cs = Inr l"
    by simp
  then have "walk fs' (if c = ''..'' then butlast cur else cur @ [c]) cs = Inr l"
    by (rule Cons.IH)
  with d' show ?case by simp
qed

lemma walk_snoc_Inr:
  assumes "walk fs cur (cs @ [c]) = Inr l" and "c \<noteq> ''..''"
  shows "\<exists>e w. walk fs cur cs = Inr e \<and> fs e = Some (Dir w) \<and> l = e @ [c]"
  using assms by (auto simp: walk_append split: sum.splits option.splits node.splits)




lemma locate_kept:
  assumes "locate fs wd p = Inr l"
    and "\<And>x w. fs x = Some (Dir w) \<Longrightarrow> \<exists>w'. fs' x = Some (Dir w')"
  shows "locate fs' wd p = Inr l"
  using assms unfolding locate_def by (rule walk_kept)

lemma is_dir_iff:
  "is_dir fs wd p \<longleftrightarrow> (\<exists>l w. locate fs wd p = Inr l \<and> fs l = Some (Dir w))"
  by (auto simp: is_dir_def entry_def split: sum.splits option.splits node.splits)

lemma is_dir_kept:
  assumes "is_dir fs wd p"
    and "\<And>x w. fs x = Some (Dir w) \<Longrightarrow> \<exists>w'. fs' x = Some (Dir w')"
  shows "is_dir fs' wd p"
proof -
  from assms(1) obtain l w where l: "locate fs wd p = Inr l" "fs l = Some (Dir w)"
    by (auto simp: is_dir_iff)
  from l(1) assms(2) have "locate fs' wd p = Inr l" by (rule locate_kept)
  moreover from l(2) assms(2) obtain w' where "fs' l = Some (Dir w')" by blast
  ultimately show ?thesis by (auto simp: is_dir_iff)
qed


lemma new_entry_Inr: "new_entry fs l n = Inr fs' \<Longrightarrow> fs' = fs(l \<mapsto> n)"
  by (auto simp: new_entry_def split: option.splits node.splits if_splits)

lemma os_mkdir_Inr:
  "os_mkdir fs wd p = Inr fs' \<Longrightarrow>
   \<exists>l. locate fs wd p = Inr l \<and> fs l = None \<and> fs' = fs(l \<mapsto> Dir True)"
  by (auto simp: os_mkdir_def split: sum.splits if_splits dest: new_entry_Inr)

lemma os_mkdir_post:
  assumes "os_mkdir fs wd p = Inr fs'"
  shows "is_dir fs' wd p \<and> (\<forall>l n. fs l = Some n \<longrightarrow> fs' l = Some n) \<and>
         (\<forall>l. fs l = None \<longrightarrow> fs' l = None \<or> fs' l = Some (Dir True))"
proof -
  from assms obtain l where l: "locate fs wd p = Inr l" "fs l = None" "fs' = fs(l \<mapsto> Dir True)"
    by (auto dest: os_mkdir_Inr)
  from l(1) have "locate fs' wd p = Inr l"
    by (rule locate_kept) (use l in auto)
  with l show ?thesis by (auto simp: is_dir_iff)
qed

lemma mkdir_existing: "is_dir fs wd p \<Longrightarrow> mkdir fs wd p = Inr fs"
  by (subst mkdir.simps) (auto simp: is_dir_iff os_mkdir_def)

lemma mkdir_success:
  "mkdir fs wd p = Inr fs' \<Longrightarrow>
   is_dir fs' wd p \<and> (\<forall>l n. fs l = Some n \<longrightarrow> fs' l = Some n) \<and>
   (\<forall>l. fs l = None \<longrightarrow> fs' l = None \<or> fs' l = Some (Dir True))"
proof (induction fs wd p arbitrary: fs' rule: mkdir.induct)
  case (1 fs wd p)
  show ?case
  proof (cases "os_mkdir fs wd p")
    case (Inr fs1)
    with "1.prems" have "fs' = fs1" by (subst (asm) mkdir.simps) simp
    with Inr have "os_mkdir fs wd p = Inr fs'" by simp
    then show ?thesis by (rule os_mkdir_post)
  next
    case (Inl e)
    show ?thesis
    proof (cases "e = FileNotFoundError")
      case False
      with Inl "1.prems" show ?thesis
        by (subst (asm) mkdir.simps) (auto split: if_splits)
    next
      case True
      with Inl "1.prems" have np: "parent p \<noteq> p"
        by (subst (asm) mkdir.simps) (auto split: if_splits)
      from True Inl "1.prems" np obtain fs1 where
        par: "mkdir fs wd (parent p) = Inr fs1"
        and rest: "(case os_mkdir fs1 wd p of Inr fs2 \<Rightarrow> Inr fs2
                   | Inl e2 \<Rightarrow> if e2 = FileNotFoundError then Inl e2
                               else if is_dir fs1 wd p then Inr fs1 else Inl e2) = Inr fs'"
        by (subst (asm) mkdir.simps) (auto split: sum.splits)
      from "1.IH" [OF Inl True np par]
      have keep: "\<forall>l n. fs l = Some n \<longrightarrow> fs1 l = Some n"
        and new: "\<forall>l. fs l = None \<longrightarrow> fs1 l = None \<or> fs1 l = Some (Dir True)" by simp_all
      from rest show ?thesis
      proof (cases "os_mkdir fs1 wd p")
        case (Inr fs2)
        with rest have "fs' = fs2" by simp
        with Inr have "os_mkdir fs1 wd p = Inr fs'" by simp
        from os_mkdir_post [OF this]
        have post: "is_dir fs' wd p" "\<forall>l n. fs1 l = Some n \<longrightarrow> fs' l = Some n"
          "\<forall>l. fs1 l = None \<longrightarrow> fs' l = None \<or> fs' l = Some (Dir True)"
          by blast+
        from keep post(2) have "\<forall>l n. fs l = Some n \<longrightarrow> fs' l = Some n" by blast
        moreover from new post(2,3) have "\<forall>l. fs l = None \<longrightarrow> fs' l = None \<or> fs' l = Some (Dir True)"
          by blast
        ultimately show ?thesis using post(1) by blast
      next
        case (Inl e2)
        with rest have "fs' = fs1" "is_dir fs1 wd p" by (auto split: if_splits)
        with keep new show ?thesis by simp
      qed
    qed
  qed
qed

lemma write_text_Inr:
  "write_text fs wd p c = Inr fs' \<Longrightarrow>
   \<exists>l. locate fs wd p = Inr l \<and> (\<forall>w. fs l \<noteq> Some (Dir w)) \<and> fs' = fs(l \<mapsto> File c)"
  by (auto simp: write_text_def split: sum.splits option.splits node.splits dest: new_entry_Inr)

lemma write_text_existing:
  "locate fs wd p = Inr l \<Longrightarrow> fs l = Some (File c0) \<Longrightarrow>
   write_text fs wd p c = Inr (fs(l \<mapsto> File c))"
  by (simp add: write_text_def)

lemma write_text_post:
  assumes "write_text fs wd p c = Inr fs'"
  shows "\<exists>l. locate fs wd p = Inr l \<and> locate fs' wd p = Inr l \<and>
             (\<forall>w. fs l \<noteq> Some (Dir w)) \<and> fs' = fs(l \<mapsto> File c) \<and>
             entry fs' wd p = Some (File c)"
proof -
  from assms obtain l where l: "locate fs wd p = Inr l" "\<forall>w. fs l \<noteq> Some (Dir w)"
    "fs' = fs(l \<mapsto> File c)" by (auto dest: write_text_Inr)
  from l(1) have "locate fs' wd p = Inr l"
    by (rule locate_kept) (use l in auto)
  with l show ?thesis by (auto simp: entry_def)
qed

lemma write_text_kept:
  assumes "write_text fs wd p c = Inr fs'" and "fs x = Some (Dir w)"
  shows "fs' x = Some (Dir w)"
  using assms by (auto dest!: write_text_Inr)

lemma save_Inr:
  "save to_html now s fig name path = (s', Inr p) \<longleftrightarrow>
     (\<exists>fs1 fs2. mkdir (files s) (cwd s) path = Inr fs1 \<and>
        write_text fs1 (cwd s) (joinpath path (save_file now name)) (to_html fig) = Inr fs2 \<and>
        p = joinpath path (save_file now name) \<and>
        s' = s\<lparr>files := fs2, log := log s @ [''Saved figure to '' @ str_path p]\<rparr>)"
  by (auto simp: save_def save_file_def timestamp_format_def Let_def split: sum.splits)













lemma save_written:
  assumes "save to_html now s fig name path = (s', Inr p)"
  shows "\<exists>fs1 l. mkdir (files s) (cwd s) path = Inr fs1 \<and>
           p = joinpath path (save_file now name) \<and>
           locate fs1 (cwd s) p = Inr l \<and> locate (files s') (cwd s) p = Inr l \<and>
           (\<forall>w. fs1 l \<noteq> Some (Dir w)) \<and>
           files s' = fs1(l \<mapsto> File (to_html fig)) \<and>
           entry (files s') (cwd s) p = Some (File (to_html fig)) \<and>
           is_dir (files s') (cwd s) path \<and>
           cwd s' = cwd s \<and>
           log s' = log s @ [''Saved figure to '' @ str_path p]"
proof -
  from assms obtain fs1 fs2 where
    m: "mkdir (files s) (cwd s) path = Inr fs1"
    and w: "write_text fs1 (cwd s) (joinpath path (save_file now name)) (to_html fig) = Inr fs2"
    and p: "p = joinpath path (save_file now name)"
    and s': "s' = s\<lparr>files := fs2, log := log s @ [''Saved figure to '' @ str_path p]\<rparr>"
    by (auto simp: save_Inr)
  from w p obtain l where l: "locate fs1 (cwd s) p = Inr l" "locate fs2 (cwd s) p = Inr l"
    "\<forall>w. fs1 l \<noteq> Some (Dir w)" "fs2 = fs1(l \<mapsto> File (to_html fig))"
    "entry fs2 (cwd s) p = Some (File (to_html fig))"
    by (auto dest: write_text_post)
  from m have "is_dir fs1 (cwd s) path" by (auto dest: mkdir_success)
  then have "is_dir fs2 (cwd s) path"
    by (rule is_dir_kept) (use l in auto)
  with m p l s' show ?thesis by auto
qed

lemma locate_joined:
  assumes "locate fs wd (Path (anchor path) (names path @ dirs @ [leaf])) = Inr l"
    and "leaf \<noteq> ''..''"
  shows "\<exists>d e. locate fs wd path = Inr d \<and> walk fs d dirs = Inr e \<and> l = e @ [leaf] \<and>
               (\<exists>w. fs e = Some (Dir w))"
proof -
  let ?st = "if anchor path = '''' then wd else []"
  from assms(1) have "walk fs ?st ((names path @ dirs) @ [leaf]) = Inr l"
    by (simp add: locate_def)
  from walk_snoc_Inr [OF this assms(2)] obtain e w where
    e: "walk fs ?st (names path @ dirs) = Inr e" "fs e = Some (Dir w)" "l = e @ [leaf]"
    by blast
  from e(1) obtain d where "walk fs ?st (names path) = Inr d" "walk fs d dirs = Inr e"
    by (auto simp: walk_append split: sum.splits)
  with e show ?thesis by (auto simp: locate_def)
qed


lemma save_location_last:
  assumes "locate fs wd (joinpath path (save_file now name)) = Inr l"
  shows "\<exists>e. l = e @ [name_base name @ ''_'' @ strftime timestamp_format now @ ''.html'']"
proof -
  let ?leaf = "name_base name @ ''_'' @ strftime timestamp_format now @ ''.html''"
  obtain a xs where j: "joinpath path (save_file now name) = Path a (xs @ [?leaf])"
    by (cases "take 1 name = ''/''") (auto simp: save_path)
  with assms have "walk fs (if a = '''' then wd else []) (xs @ [?leaf]) = Inr l"
    by (simp add: locate_def)
  from walk_snoc_Inr [OF this leaf_plain] show ?thesis by blast
qed


subsection \<open>The example saves\<close>

lemma timestamp_dt0: "strftime ''%Y-%m-%d_%H-%M-%S-%f'' dt0 = ''2024-03-09_07-05-01-000042''"
  by (simp add: directive_def dt0_def zero_pad_numeral zero_pad_1 digit_char_def)

lemma timestamp_dt1: "strftime ''%Y-%m-%d_%H-%M-%S-%f'' dt1 = ''2024-03-09_07-05-01-000043''"
  by (simp add: directive_def dt0_def dt1_def zero_pad_numeral zero_pad_1 digit_char_def)

lemma valid_dt0: "valid_datetime dt0" "valid_datetime dt1" "dt1 \<noteq> dt0"
  by (simp_all add: valid_datetime_def dt0_def dt1_def)

lemma sys0_sel: "files sys0 = fs_out" "cwd sys0 = [''work'']" "log sys0 = []"
  by (simp_all add: sys0_def)

lemma fs_out_dirs:
  "fs_out [''work''] = Some (Dir True)"
  "fs_out [''work'', ''out''] = Some (Dir True)"
  "fs_out [''work'', ''out'', ''a''] = Some (Dir True)"
  by (simp_all add: fs_out_def fs0_def)

lemma fs_out_none:
  "fs_out [''work'', ''out'', ''plot_2024-03-09_07-05-01-000042.html''] = None"
  "fs_out [''work'', ''out'', ''plot_2024-03-09_07-05-01-000043.html''] = None"
  "fs_out [''work'', ''out'', ''a'', ''b_2024-03-09_07-05-01-000042.html''] = None"
  "fs_out [''work'', ''out'', ''x_2024-03-09_07-05-01-000042.html''] = None"
  "fs_out [''work'', ''out'', ''b_2024-03-09_07-05-01-000042.html''] = None"
  "fs_out [''work'', ''b_2024-03-09_07-05-01-000042.html''] = None"
  by (simp_all add: fs_out_def fs0_def)

lemma locate_out: "locate fs_out [''work''] (Path '''' [''out'']) = Inr [''work'', ''out'']"
  by (simp add: locate_def fs_out_dirs)

lemma mkdir_out: "mkdir fs_out [''work''] (Path '''' [''out'']) = Inr fs_out"
proof (rule mkdir_existing)
  show "is_dir fs_out [''work''] (Path '''' [''out''])"
    unfolding is_dir_iff locate_out using fs_out_dirs(2) by blast
qed

lemma file_dt0: "save_file dt0 name = name @ ''_2024-03-09_07-05-01-000042.html''"
  unfolding save_file_def timestamp_format_def timestamp_dt0 by simp

lemma file_dt1: "save_file dt1 name = name @ ''_2024-03-09_07-05-01-000043.html''"
  unfolding save_file_def timestamp_format_def timestamp_dt1 by simp

lemma path_plot:
  "joinpath (Path '''' [''out'']) (save_file dt0 ''plot'') =
     Path '''' [''out'', ''plot_2024-03-09_07-05-01-000042.html'']"
  by (simp add: file_dt0 joinpath_def parse_path_def splitroot_def)

lemma path_nested:
  "joinpath (Path '''' [''out'']) (save_file dt0 ''a/b'') =
     Path '''' [''out'', ''a'', ''b_2024-03-09_07-05-01-000042.html'']"
  by (simp add: file_dt0 joinpath_def parse_path_def splitroot_def)




lemma write_plot:
  "write_text fs_out [''work''] (Path '''' [''out'', ''plot_2024-03-09_07-05-01-000042.html'']) c =
     Inr (fs_out([''work'', ''out'', ''plot_2024-03-09_07-05-01-000042.html''] \<mapsto> File c))"
  by (simp add: write_text_def locate_def new_entry_def fs_out_dirs fs_out_none)

lemma write_nested:
  "write_text fs_out [''work''] (Path '''' [''out'', ''a'', ''b_2024-03-09_07-05-01-000042.html'']) c =
     Inr (fs_out([''work'', ''out'', ''a'', ''b_2024-03-09_07-05-01-000042.html''] \<mapsto> File c))"
  by (simp add: write_text_def locate_def new_entry_def fs_out_dirs fs_out_none)




lemma save_plot:
  "save to_html dt0 sys0 fig ''plot'' (Path '''' [''out'']) =
     (sys0\<lparr>files := fs_out([''work'', ''out'', ''plot_2024-03-09_07-05-01-000042.html'']
                  \<mapsto> File (to_html fig)),
       log := log sys0 @ [''Saved figure to out/plot_2024-03-09_07-05-01-000042.html'']\<rparr>,
      Inr (Path '''' [''out'', ''plot_2024-03-09_07-05-01-000042.html'']))"
  unfolding save_Inr path_plot sys0_sel
  by (simp add: mkdir_out write_plot str_path_def)

lemma save_nested:
  "save to_html dt0 sys0 fig ''a/b'' (Path '''' [''out'']) =
     (sys0\<lparr>files := fs_out([''work'', ''out'', ''a'', ''b_2024-03-09_07-05-01-000042.html'']
                  \<mapsto> File (to_html fig)),
       log := log sys0 @ [''Saved figure to out/a/b_2024-03-09_07-05-01-000042.html'']\<rparr>,
      Inr (Path '''' [''out'', ''a'', ''b_2024-03-09_07-05-01-000042.html'']))"
  unfolding save_Inr path_nested sys0_sel
  by (simp add: mkdir_out write_nested str_path_def)









lemma save_plot_next:
  "snd (save to_html dt1 (fst (save to_html dt0 sys0 fig ''plot'' (Path '''' [''out'']))) fig2
          ''plot'' (Path '''' [''out''])) =
     Inr (Path '''' [''out'', ''plot_2024-03-09_07-05-01-000043.html''])"
proof -
  let ?s1 = "fst (save to_html dt0 sys0 fig ''plot'' (Path '''' [''out'']))"
  let ?l1 = "[''work'', ''out'', ''plot_2024-03-09_07-05-01-000042.html'']"
  let ?l2 = "[''work'', ''out'', ''plot_2024-03-09_07-05-01-000043.html'']"
  let ?p2 = "Path '''' [''out'', ''plot_2024-03-09_07-05-01-000043.html'']"
  have f: "files ?s1 = fs_out(?l1 \<mapsto> File (to_html fig))" and wd: "cwd ?s1 = [''work'']"
    by (simp_all add: save_plot sys0_sel)
  have sel: "files ?s1 [''work''] = Some (Dir True)" "files ?s1 [''work'', ''out''] = Some (Dir True)"
    "files ?s1 ?l2 = None"
    by (simp_all add: f fs_out_dirs fs_out_none)
  have "is_dir (files ?s1) (cwd ?s1) (Path '''' [''out''])"
    unfolding wd is_dir_iff using sel by (auto simp: locate_def)
  then have m: "mkdir (files ?s1) (cwd ?s1) (Path '''' [''out'']) = Inr (files ?s1)"
    by (rule mkdir_existing)
  have p: "joinpath (Path '''' [''out'']) (save_file dt1 ''plot'') = ?p2"
    by (simp add: file_dt1 joinpath_def parse_path_def splitroot_def)
  have w: "write_text (files ?s1) (cwd ?s1) ?p2 (to_html fig2) =
      Inr ((files ?s1)(?l2 \<mapsto> File (to_html fig2)))"
    unfolding wd by (simp add: write_text_def locate_def new_entry_def sel)
  have "\<exists>s'. save to_html dt1 ?s1 fig2 ''plot'' (Path '''' [''out'']) = (s', Inr ?p2)"
    unfolding save_Inr p using m w by simp
  then show ?thesis by auto
qed

subsection \<open>The claims about \<^verbatim>\<open>save\<close>\<close>

text \<open>
  Claim C3, as amended. For every figure, directory path and base name without a path
  separator, a call of \<^verbatim>\<open>save\<close> that returns has written the serialized figure to exactly
  \<^verbatim>\<open><dir>/<name>_<timestamp>.html\<close> and returns that path: the timestamp has the format
  \<^verbatim>\<open>YYYY-MM-DD_HH-MM-SS-ffffff\<close>, its last field being the microseconds; the path is the
  directory's components followed by the file name, so its parent is the directory, its
  name starts with the base name and ends in \<^verbatim>\<open>.html\<close>; the entry the path names holds
  the serialized figure and lies in the directory the destination path names; and the
  log names the path.
\<close>

theorem save_writes_timestamped_html:
  assumes "CHR ''/'' \<notin> set name" and "valid_datetime now"
    and "save to_html now s fig name path = (s', Inr p)"
  shows "let timestamp = strftime ''%Y-%m-%d_%H-%M-%S-%f'' now;
             file = name @ ''_'' @ timestamp @ ''.html''
         in has_format ''YYYY-MM-DD_HH-MM-SS-ffffff'' timestamp \<and>
            timestamp =
              zero_pad 4 (dt_year now) @ ''-'' @ zero_pad 2 (dt_month now) @ ''-'' @
              zero_pad 2 (dt_day now) @ ''_'' @ zero_pad 2 (dt_hour now) @ ''-'' @
              zero_pad 2 (dt_minute now) @ ''-'' @ zero_pad 2 (dt_second now) @ ''-'' @
              zero_pad 6 (dt_microsecond now) \<and>
            p = Path (anchor path) (names path @ [file]) \<and>
            parent p = path \<and>
            path_name p = file \<and>
            str_path p = (if names path = [] then anchor path else str_path path @ ''/'') @ file \<and>
            entry (files s') (cwd s') p = Some (File (to_html fig)) \<and>
            (\<exists>d. locate (files s') (cwd s') path = Inr d \<and>
                 locate (files s') (cwd s') p = Inr (d @ [file]) \<and>
                 files s' (d @ [file]) = Some (File (to_html fig))) \<and>
            log s' = log s @ [''Saved figure to '' @ str_path p]"
proof -
  let ?ts = "strftime timestamp_format now"
  let ?file = "name @ ''_'' @ ?ts @ ''.html''"
  from save_written [OF assms(3)] obtain fs1 l where
    p: "p = joinpath path (save_file now name)"
    and l: "locate (files s') (cwd s) p = Inr l"
    and f: "files s' = fs1(l \<mapsto> File (to_html fig))"
    and en: "entry (files s') (cwd s) p = Some (File (to_html fig))"
    and wd: "cwd s' = cwd s"
    and lg: "log s' = log s @ [''Saved figure to '' @ str_path p]"
    by blast
  from assms(1) have t: "take 1 name \<noteq> ''/''" by (cases name) auto
  from p t assms(1) have p': "p = Path (anchor path) (names path @ [?file])"
    by (simp add: save_path name_plain)
  from l have "locate (files s') (cwd s) (Path (anchor path) (names path @ [] @ [?file])) = Inr l"
    by (simp add: p')
  from locate_joined [OF this leaf_plain] obtain d where
    d: "locate (files s') (cwd s) path = Inr d" "l = d @ [?file]" by auto
  from f d have fl: "files s' (d @ [?file]) = Some (File (to_html fig))" by simp
  have str: "str_path p = (if names path = [] then anchor path else str_path path @ ''/'') @ ?file"
    by (simp add: p' str_path_def join_sep_snoc)
  from l d have lp: "locate (files s') (cwd s) (Path (anchor path) (names path @ [?file])) = Inr (d @ [?file])"
    by (simp add: p')
  from p' en str lg d(1) lp fl show ?thesis
    using timestamp_has_format [of now] timestamp_eq [of now]
    by (simp add: Let_def timestamp_format_def [symmetric] parent_def path_name_def wd)
qed

theorem save_writes_timestamped_html_witness:
  "CHR ''/'' \<notin> set ''plot'' \<and> valid_datetime dt0 \<and>
   snd (save (\<lambda>f. ''<html>'') dt0 sys0 fig0 ''plot'' (Path '''' [''out''])) =
     Inr (Path '''' [''out'', ''plot_2024-03-09_07-05-01-000042.html'']) \<and>
   parent (Path '''' [''out'', ''plot_2024-03-09_07-05-01-000042.html'']) = Path '''' [''out''] \<and>
   str_path (Path '''' [''out'', ''plot_2024-03-09_07-05-01-000042.html'']) =
     ''out/plot_2024-03-09_07-05-01-000042.html'' \<and>
   entry (files (fst (save (\<lambda>f. ''<html>'') dt0 sys0 fig0 ''plot'' (Path '''' [''out'']))))
     (cwd (fst (save (\<lambda>f. ''<html>'') dt0 sys0 fig0 ''plot'' (Path '''' [''out'']))))
     (Path '''' [''out'', ''plot_2024-03-09_07-05-01-000042.html'']) = Some (File ''<html>'')"
proof -
  let ?sv = "save (\<lambda>f. ''<html>'') dt0 sys0 fig0 ''plot'' (Path '''' [''out''])"
  let ?p = "Path '''' [''out'', ''plot_2024-03-09_07-05-01-000042.html'']"
  have n: "CHR ''/'' \<notin> set ''plot''" by simp
  have sv: "?sv = (fst ?sv, Inr ?p)" by (simp add: save_plot)
  note th = save_writes_timestamped_html [OF n valid_dt0(1) sv, unfolded Let_def]
  from th have 1: "parent ?p = Path '''' [''out'']" by blast
  from th have 2: "entry (files (fst ?sv)) (cwd (fst ?sv)) ?p = Some (File ''<html>'')" by blast
  have 3: "str_path ?p = ''out/plot_2024-03-09_07-05-01-000042.html''" by (simp add: str_path_def)
  have 4: "snd ?sv = Inr ?p" by (simp add: save_plot)
  from n valid_dt0(1) 1 2 3 4 show ?thesis by (intro conjI)
qed

text \<open>
  The claim as stated, for every base name, fails: with the base name \<^verbatim>\<open>a/b\<close> and the
  directory \<^verbatim>\<open>out\<close> (where \<^verbatim>\<open>out/a\<close> exists) the returned path is
  \<^verbatim>\<open>out/a/b_<timestamp>.html\<close>, whose file name does not start with the base name and
  whose parent is not the directory; the file is written into \<^verbatim>\<open>out/a\<close>.
\<close>

theorem save_filename_counterexample:
  "snd (save (\<lambda>f. ''<html>'') dt0 sys0 fig0 ''a/b'' (Path '''' [''out''])) =
     Inr (Path '''' [''out'', ''a'', ''b_2024-03-09_07-05-01-000042.html'']) \<and>
   path_name (Path '''' [''out'', ''a'', ''b_2024-03-09_07-05-01-000042.html'']) =
     ''b_2024-03-09_07-05-01-000042.html'' \<and>
   take (length ''a/b'') ''b_2024-03-09_07-05-01-000042.html'' \<noteq> ''a/b'' \<and>
   parent (Path '''' [''out'', ''a'', ''b_2024-03-09_07-05-01-000042.html'']) \<noteq> Path '''' [''out''] \<and>
   files (fst (save (\<lambda>f. ''<html>'') dt0 sys0 fig0 ''a/b'' (Path '''' [''out''])))
     [''work'', ''out'', ''a'', ''b_2024-03-09_07-05-01-000042.html''] = Some (File ''<html>'')"
  by (simp add: save_nested path_name_def parent_def)



text \<open>
  Claim C5. After a save that returned, a second save with the same base name and
  directory at a clock reading that differs from the first returns a different path and
  leaves the first file as it was, both files holding their own figure at two different
  locations; a second save at the same clock reading returns the same path without any
  error and replaces the content of the first file.
\<close>

theorem sequential_saves_distinct:
  assumes "valid_datetime now1" and "valid_datetime now2"
    and "save to_html now1 s fig1 name path = (s1, Inr p1)"
  shows "(\<exists>s2. save to_html now1 s1 fig2 name path = (s2, Inr p1) \<and>
               entry (files s2) (cwd s2) p1 = Some (File (to_html fig2))) \<and>
         (\<forall>s2 p2. now2 \<noteq> now1 \<and> save to_html now2 s1 fig2 name path = (s2, Inr p2) \<longrightarrow>
               p2 \<noteq> p1 \<and>
               entry (files s2) (cwd s2) p1 = Some (File (to_html fig1)) \<and>
               entry (files s2) (cwd s2) p2 = Some (File (to_html fig2)) \<and>
               (\<exists>l1 l2. locate (files s2) (cwd s2) p1 = Inr l1 \<and>
                        locate (files s2) (cwd s2) p2 = Inr l2 \<and> l1 \<noteq> l2))"
proof -
  from save_written [OF assms(3)] obtain fs1 l1 where
    p1: "p1 = joinpath path (save_file now1 name)"
    and l1: "locate (files s1) (cwd s) p1 = Inr l1"
    and f1: "files s1 = fs1(l1 \<mapsto> File (to_html fig1))"
    and d1: "is_dir (files s1) (cwd s) path"
    and wd1: "cwd s1 = cwd s"
    by blast
  from d1 have m2: "mkdir (files s1) (cwd s1) path = Inr (files s1)"
    by (simp add: wd1 mkdir_existing)
  from f1 have "files s1 l1 = Some (File (to_html fig1))" by simp
  with l1 have w2: "write_text (files s1) (cwd s1) p1 (to_html fig2) =
      Inr ((files s1)(l1 \<mapsto> File (to_html fig2)))"
    by (simp add: wd1 write_text_existing)
  from write_text_post [OF w2]
  have "entry ((files s1)(l1 \<mapsto> File (to_html fig2))) (cwd s1) p1 = Some (File (to_html fig2))"
    by blast
  with m2 w2 have A: "\<exists>s2. save to_html now1 s1 fig2 name path = (s2, Inr p1) \<and>
               entry (files s2) (cwd s2) p1 = Some (File (to_html fig2))"
    by (simp add: save_Inr p1 [symmetric])
  have B: "p2 \<noteq> p1 \<and>
           entry (files s2) (cwd s2) p1 = Some (File (to_html fig1)) \<and>
           entry (files s2) (cwd s2) p2 = Some (File (to_html fig2)) \<and>
           (\<exists>l1 l2. locate (files s2) (cwd s2) p1 = Inr l1 \<and>
                    locate (files s2) (cwd s2) p2 = Inr l2 \<and> l1 \<noteq> l2)"
    if ne: "now2 \<noteq> now1" and sv: "save to_html now2 s1 fig2 name path = (s2, Inr p2)" for s2 p2
  proof -
    from save_written [OF sv] m2 obtain l2 where
      p2: "p2 = joinpath path (save_file now2 name)"
      and l2: "locate (files s1) (cwd s1) p2 = Inr l2" "locate (files s2) (cwd s1) p2 = Inr l2"
      and nd: "\<forall>w. files s1 l2 \<noteq> Some (Dir w)"
      and f2: "files s2 = (files s1)(l2 \<mapsto> File (to_html fig2))"
      and e2: "entry (files s2) (cwd s1) p2 = Some (File (to_html fig2))"
      and wd2: "cwd s2 = cwd s1"
      by auto
    from p1 p2 ne assms(1,2) have pne: "p2 \<noteq> p1" by (auto dest: save_path_inj)
    from ne assms(1,2) have ts: "strftime timestamp_format now1 \<noteq> strftime timestamp_format now2"
      by (auto dest: timestamp_inj)
    from l1 p1 obtain e1 where
      e1: "l1 = e1 @ [name_base name @ ''_'' @ strftime timestamp_format now1 @ ''.html'']"
      by (auto dest: save_location_last)
    from l2(1) p2 obtain e2' where
      e2': "l2 = e2' @ [name_base name @ ''_'' @ strftime timestamp_format now2 @ ''.html'']"
      by (auto dest: save_location_last)
    from e1 e2' ts have lne: "l1 \<noteq> l2" by simp
    from l1 have k: "locate (files s2) (cwd s1) p1 = Inr l1"
      unfolding wd1 [symmetric]
      by (rule locate_kept) (use nd f2 in auto)
    with lne f1 f2 have "entry (files s2) (cwd s1) p1 = Some (File (to_html fig1))"
      by (simp add: entry_def)
    with pne e2 k l2(2) lne show ?thesis by (auto simp: wd2)
  qed
  from A B show ?thesis by blast
qed

theorem sequential_saves_distinct_witness:
  "valid_datetime dt0 \<and> valid_datetime dt1 \<and> dt1 \<noteq> dt0 \<and>
   snd (save (\<lambda>f. ''<html>'') dt0 sys0 fig0 ''plot'' (Path '''' [''out''])) =
     Inr (Path '''' [''out'', ''plot_2024-03-09_07-05-01-000042.html'']) \<and>
   snd (save (\<lambda>f. ''<html>'') dt1
          (fst (save (\<lambda>f. ''<html>'') dt0 sys0 fig0 ''plot'' (Path '''' [''out''])))
          fig0 ''plot'' (Path '''' [''out''])) =
     Inr (Path '''' [''out'', ''plot_2024-03-09_07-05-01-000043.html'']) \<and>
   Path '''' [''out'', ''plot_2024-03-09_07-05-01-000043.html''] \<noteq>
     Path '''' [''out'', ''plot_2024-03-09_07-05-01-000042.html''] \<and>
   entry (files (fst (save (\<lambda>f. ''<html>'') dt1
                (fst (save (\<lambda>f. ''<html>'') dt0 sys0 fig0 ''plot'' (Path '''' [''out''])))
                fig0 ''plot'' (Path '''' [''out'']))))
     (cwd (fst (save (\<lambda>f. ''<html>'') dt1
                (fst (save (\<lambda>f. ''<html>'') dt0 sys0 fig0 ''plot'' (Path '''' [''out''])))
                fig0 ''plot'' (Path '''' [''out'']))))
     (Path '''' [''out'', ''plot_2024-03-09_07-05-01-000042.html'']) = Some (File ''<html>'') \<and>
   (\<exists>s2. save (\<lambda>f. ''<html>'') dt0
           (fst (save (\<lambda>f. ''<html>'') dt0 sys0 fig0 ''plot'' (Path '''' [''out''])))
           fig0 ''plot'' (Path '''' [''out'']) =
         (s2, Inr (Path '''' [''out'', ''plot_2024-03-09_07-05-01-000042.html''])) \<and>
         entry (files s2) (cwd s2) (Path '''' [''out'', ''plot_2024-03-09_07-05-01-000042.html'']) =
           Some (File ''<html>''))"
proof -
  let ?h = "\<lambda>f::figure. ''<html>''"
  let ?sv = "save ?h dt0 sys0 fig0 ''plot'' (Path '''' [''out''])"
  let ?sv2 = "save ?h dt1 (fst ?sv) fig0 ''plot'' (Path '''' [''out''])"
  let ?p = "Path '''' [''out'', ''plot_2024-03-09_07-05-01-000042.html'']"
  let ?p2 = "Path '''' [''out'', ''plot_2024-03-09_07-05-01-000043.html'']"
  have sv: "?sv = (fst ?sv, Inr ?p)" by (simp add: save_plot)
  have sv2: "?sv2 = (fst ?sv2, Inr ?p2)"
    using save_plot_next [of ?h fig0 fig0] by (metis prod.collapse)
  note th = sequential_saves_distinct [OF valid_dt0(1) valid_dt0(2) sv, where ?fig2.0 = fig0]
  from th have A: "\<exists>s2. save ?h dt0 (fst ?sv) fig0 ''plot'' (Path '''' [''out'']) = (s2, Inr ?p) \<and>
      entry (files s2) (cwd s2) ?p = Some (File ''<html>'')"
    by (rule conjunct1)
  from th [THEN conjunct2, rule_format, of "fst ?sv2" ?p2] valid_dt0(3) sv2
  have B: "?p2 \<noteq> ?p \<and> entry (files (fst ?sv2)) (cwd (fst ?sv2)) ?p = Some (File ''<html>'')"
    by blast
  have "snd ?sv = Inr ?p" by (simp add: save_plot)
  moreover have "snd ?sv2 = Inr ?p2" by (rule save_plot_next)
  ultimately show ?thesis using A B valid_dt0 by (intro conjI) blast+
qed




section \<open>Properties of the figure builders\<close>

lemma show_and_return_new:
  "show_and_return eng (w\<lparr>objects := objects w @ [f]\<rparr>) (length (objects w)) show =
     (if show then
        (case renderer eng f of
           Some e \<Rightarrow> (w\<lparr>objects := objects w @ [f]\<rparr>, Inl e)
         | None \<Rightarrow> displayed w f True)
      else displayed w f False)"
  by (simp add: show_and_return_def fig_show_def displayed_def split: option.splits)

lemma line_eq:
  "line eng w df x y fc fr x_error y_error markers title show dark =
     (case px_line eng (line_kwargs df x y fc fr x_error y_error markers title dark) of
        Inl e \<Rightarrow> (w, Inl e)
      | Inr f \<Rightarrow> show_and_return eng (w\<lparr>objects := objects w @ [f]\<rparr>) (length (objects w)) show)"
  by (simp add: line_def new_figure_def split: sum.splits)

lemma scatter_eq:
  "scatter eng w df x y c s m fc fr x_error y_error title show =
     (case px_scatter eng (scatter_kwargs df x y c s m fc fr x_error y_error title) of
        Inl e \<Rightarrow> (w, Inl e)
      | Inr f \<Rightarrow> show_and_return eng (w\<lparr>objects := objects w @ [f]\<rparr>) (length (objects w)) show)"
  by (simp add: scatter_def new_figure_def split: sum.splits)

lemma scatter3_eq:
  "scatter3 eng w df x y z c s m x_error y_error z_error title show =
     (case px_scatter_3d eng (scatter3_kwargs df x y z c s m x_error y_error z_error title) of
        Inl e \<Rightarrow> (w, Inl e)
      | Inr f \<Rightarrow> show_and_return eng (w\<lparr>objects := objects w @ [f]\<rparr>) (length (objects w)) show)"
  by (simp add: scatter3_def new_figure_def split: sum.splits)

lemma surface_eq:
  "surface eng w x y z title title_x title_y title_z show =
     (case go_Surface eng [(''z'', Val z), (''x'', Val x), (''y'', Val y)] of
        Inl e \<Rightarrow> (w, Inl e)
      | Inr trace \<Rightarrow>
          show_and_return eng
            (w\<lparr>objects := objects w @ [surface_figure (default_template eng) trace title title_x title_y title_z]\<rparr>)
            (length (objects w)) show)"
  by (simp add: surface_def new_figure_def update_traces_def update_layout_def
      surface_figure_def Let_def split: sum.splits)

lemma show_and_return_error:
  "snd (show_and_return eng (w\<lparr>objects := objects w @ [f]\<rparr>) (length (objects w)) show) = Inl e \<longleftrightarrow>
     show \<and> renderer eng f = Some e"
  by (auto simp: show_and_return_new displayed_def split: option.splits)

lemma show_and_return_ok:
  "show \<longrightarrow> renderer eng f = None \<Longrightarrow>
   show_and_return eng (w\<lparr>objects := objects w @ [f]\<rparr>) (length (objects w)) show =
     displayed w f show"
  by (auto simp: show_and_return_new)

lemma show_and_return_result:
  "show_and_return eng (w\<lparr>objects := objects w @ [f]\<rparr>) (length (objects w)) show = (w', Inr r) \<Longrightarrow>
   (show \<longrightarrow> renderer eng f = None) \<and> (w', Inr r) = displayed w f show"
  by (auto simp: show_and_return_new displayed_def split: option.splits if_splits)

lemma returned_displayed: "(w', Inr r) = displayed w f show \<Longrightarrow> returned w show w' r"
  by (auto simp: displayed_def returned_def)

lemma line_error:
  "snd (line eng w df x y fc fr x_error y_error markers title show dark) = Inl e \<longleftrightarrow>
      px_line eng (line_kwargs df x y fc fr x_error y_error markers title dark) = Inl e \<or>
      (\<exists>f. px_line eng (line_kwargs df x y fc fr x_error y_error markers title dark) = Inr f \<and>
           show \<and> renderer eng f = Some e)"
  by (cases "px_line eng (line_kwargs df x y fc fr x_error y_error markers title dark)")
     (simp_all add: line_eq show_and_return_error)

lemma scatter_error:
  "snd (scatter eng w df x y c s m fc fr x_error y_error title show) = Inl e \<longleftrightarrow>
      px_scatter eng (scatter_kwargs df x y c s m fc fr x_error y_error title) = Inl e \<or>
      (\<exists>f. px_scatter eng (scatter_kwargs df x y c s m fc fr x_error y_error title) = Inr f \<and>
           show \<and> renderer eng f = Some e)"
  by (cases "px_scatter eng (scatter_kwargs df x y c s m fc fr x_error y_error title)")
     (simp_all add: scatter_eq show_and_return_error)

lemma scatter3_error:
  "snd (scatter3 eng w df x y3 z c s m x_error y_error z_error title show) = Inl e \<longleftrightarrow>
      px_scatter_3d eng (scatter3_kwargs df x y3 z c s m x_error y_error z_error title) = Inl e \<or>
      (\<exists>f. px_scatter_3d eng (scatter3_kwargs df x y3 z c s m x_error y_error z_error title) = Inr f \<and>
           show \<and> renderer eng f = Some e)"
  by (cases "px_scatter_3d eng (scatter3_kwargs df x y3 z c s m x_error y_error z_error title)")
     (simp_all add: scatter3_eq show_and_return_error)

lemma surface_error:
  "snd (surface eng w xs ys zs title title_x title_y title_z show) = Inl e \<longleftrightarrow>
      go_Surface eng [(''z'', Val zs), (''x'', Val xs), (''y'', Val ys)] = Inl e \<or>
      (\<exists>t. go_Surface eng [(''z'', Val zs), (''x'', Val xs), (''y'', Val ys)] = Inr t \<and>
           show \<and> renderer eng (surface_figure (default_template eng) t title title_x title_y title_z) = Some e)"
  by (cases "go_Surface eng [(''z'', Val zs), (''x'', Val xs), (''y'', Val ys)]")
     (simp_all add: surface_eq show_and_return_error)

lemma line_result:
  "line eng w df x y fc fr x_error y_error markers title show dark = (w', Inr r) \<Longrightarrow>
   returned w show w' r"
  by (cases "px_line eng (line_kwargs df x y fc fr x_error y_error markers title dark)")
     (auto simp: line_eq dest!: show_and_return_result intro: returned_displayed)

lemma scatter_result:
  "scatter eng w df x y c s m fc fr x_error y_error title show = (w', Inr r) \<Longrightarrow>
   returned w show w' r"
  by (cases "px_scatter eng (scatter_kwargs df x y c s m fc fr x_error y_error title)")
     (auto simp: scatter_eq dest!: show_and_return_result intro: returned_displayed)

lemma scatter3_result:
  "scatter3 eng w df x y3 z c s m x_error y_error z_error title show = (w', Inr r) \<Longrightarrow>
   returned w show w' r"
  by (cases "px_scatter_3d eng (scatter3_kwargs df x y3 z c s m x_error y_error z_error title)")
     (auto simp: scatter3_eq dest!: show_and_return_result intro: returned_displayed)

lemma surface_result:
  "surface eng w xs ys zs title title_x title_y title_z show = (w', Inr r) \<Longrightarrow>
   returned w show w' r"
  by (cases "go_Surface eng [(''z'', Val zs), (''x'', Val xs), (''y'', Val ys)]")
     (auto simp: surface_eq dest!: show_and_return_result intro: returned_displayed)

lemma toy_line_missing:
  "px_line toy_engine (line_kwargs df0 ''t'' (PStr ''y'') None None None None False None False) =
     Inl ''no column t''"
  by (simp add: toy_engine_def toy_px_def line_kwargs_def df0_def)

lemma toy_line_ok:
  "px_line toy_engine (line_kwargs df0 ''x'' (PStr ''y'') None None None None False None False) =
     Inr fig0"
  by (simp add: toy_engine_def toy_px_def line_kwargs_def df0_def)

text \<open>
  Claim C6. No builder validates its inputs: the arguments go to the engine as they
  are, and a builder fails exactly when the engine's constructor raises, or when the
  display flag is set and the renderer raises, in both cases with the engine's own
  exception; when the constructor raises, nothing has been changed.
\<close>

theorem builders_propagate_errors:
  "(snd (line eng w df x y fc fr x_error y_error markers title show dark) = Inl e \<longleftrightarrow>
      px_line eng (line_kwargs df x y fc fr x_error y_error markers title dark) = Inl e \<or>
      (\<exists>f. px_line eng (line_kwargs df x y fc fr x_error y_error markers title dark) = Inr f \<and>
           show \<and> renderer eng f = Some e)) \<and>
   (px_line eng (line_kwargs df x y fc fr x_error y_error markers title dark) = Inl e \<longrightarrow>
      line eng w df x y fc fr x_error y_error markers title show dark = (w, Inl e)) \<and>
   (snd (scatter eng w df x y c s m fc fr x_error y_error title show) = Inl e \<longleftrightarrow>
      px_scatter eng (scatter_kwargs df x y c s m fc fr x_error y_error title) = Inl e \<or>
      (\<exists>f. px_scatter eng (scatter_kwargs df x y c s m fc fr x_error y_error title) = Inr f \<and>
           show \<and> renderer eng f = Some e)) \<and>
   (px_scatter eng (scatter_kwargs df x y c s m fc fr x_error y_error title) = Inl e \<longrightarrow>
      scatter eng w df x y c s m fc fr x_error y_error title show = (w, Inl e)) \<and>
   (snd (scatter3 eng w df x y3 z c s m x_error y_error z_error title show) = Inl e \<longleftrightarrow>
      px_scatter_3d eng (scatter3_kwargs df x y3 z c s m x_error y_error z_error title) = Inl e \<or>
      (\<exists>f. px_scatter_3d eng (scatter3_kwargs df x y3 z c s m x_error y_error z_error title) = Inr f \<and>
           show \<and> renderer eng f = Some e)) \<and>
   (px_scatter_3d eng (scatter3_kwargs df x y3 z c s m x_error y_error z_error title) = Inl e \<longrightarrow>
      scatter3 eng w df x y3 z c s m x_error y_error z_error title show = (w, Inl e)) \<and>
   (snd (surface eng w xs ys zs title title_x title_y title_z show) = Inl e \<longleftrightarrow>
      go_Surface eng [(''z'', Val zs), (''x'', Val xs), (''y'', Val ys)] = Inl e \<or>
      (\<exists>t. go_Surface eng [(''z'', Val zs), (''x'', Val xs), (''y'', Val ys)] = Inr t \<and>
           show \<and> renderer eng (surface_figure (default_template eng) t title title_x title_y title_z) = Some e)) \<and>
   (go_Surface eng [(''z'', Val zs), (''x'', Val xs), (''y'', Val ys)] = Inl e \<longrightarrow>
      surface eng w xs ys zs title title_x title_y title_z show = (w, Inl e))"
  by (intro conjI impI line_error scatter_error scatter3_error surface_error)
     (simp_all add: line_eq scatter_eq scatter3_eq surface_eq)

theorem builders_propagate_errors_witness:
  "px_line toy_engine (line_kwargs df0 ''t'' (PStr ''y'') None None None None False None False) =
     Inl ''no column t'' \<and>
   line toy_engine w0 df0 ''t'' (PStr ''y'') None None None None False None True False =
     (w0, Inl ''no column t'')"
  using builders_propagate_errors
    [of toy_engine w0 df0 "''t''" "PStr ''y''" None None None None False None True False
       "''no column t''", THEN conjunct2, THEN conjunct1]
    toy_line_missing
  by simp

text \<open>
  Claim C7. Every builder returns the figure it constructed, and opens the viewer on it
  if and only if the display flag is set: when the engine returns a figure (and the
  renderer does not fail), the outcome is the state with that one new figure object, the
  viewer opened on it exactly when the flag is set, and the reference to it; with the
  flag unset the figure is the whole effect. Conversely, whenever a builder returns a
  reference, it is new and the state satisfies the same.
\<close>

theorem builders_return_figure:
  "(px_line eng (line_kwargs df x y fc fr x_error y_error markers title dark) = Inr f \<and>
      (show \<longrightarrow> renderer eng f = None) \<longrightarrow>
      line eng w df x y fc fr x_error y_error markers title show dark = displayed w f show) \<and>
   (px_scatter eng (scatter_kwargs df x y c s m fc fr x_error y_error title) = Inr f \<and>
      (show \<longrightarrow> renderer eng f = None) \<longrightarrow>
      scatter eng w df x y c s m fc fr x_error y_error title show = displayed w f show) \<and>
   (px_scatter_3d eng (scatter3_kwargs df x y3 z c s m x_error y_error z_error title) = Inr f \<and>
      (show \<longrightarrow> renderer eng f = None) \<longrightarrow>
      scatter3 eng w df x y3 z c s m x_error y_error z_error title show = displayed w f show) \<and>
   (go_Surface eng [(''z'', Val zs), (''x'', Val xs), (''y'', Val ys)] = Inr t \<and>
      (show \<longrightarrow> renderer eng (surface_figure (default_template eng) t title title_x title_y title_z) = None) \<longrightarrow>
      surface eng w xs ys zs title title_x title_y title_z show =
        displayed w (surface_figure (default_template eng) t title title_x title_y title_z) show) \<and>
   (\<forall>w' r. line eng w df x y fc fr x_error y_error markers title show dark = (w', Inr r) \<longrightarrow>
      returned w show w' r) \<and>
   (\<forall>w' r. scatter eng w df x y c s m fc fr x_error y_error title show = (w', Inr r) \<longrightarrow>
      returned w show w' r) \<and>
   (\<forall>w' r. scatter3 eng w df x y3 z c s m x_error y_error z_error title show = (w', Inr r) \<longrightarrow>
      returned w show w' r) \<and>
   (\<forall>w' r. surface eng w xs ys zs title title_x title_y title_z show = (w', Inr r) \<longrightarrow>
      returned w show w' r)"
  by (intro conjI impI allI)
     (simp_all add: line_eq scatter_eq scatter3_eq surface_eq show_and_return_ok
        line_result scatter_result scatter3_result surface_result)

theorem builders_return_figure_witness:
  "px_line toy_engine (line_kwargs df0 ''x'' (PStr ''y'') None None None None False None False) =
     Inr fig0 \<and>
   renderer toy_engine fig0 = None \<and>
   line toy_engine w0 df0 ''x'' (PStr ''y'') None None None None False None True False =
     (\<lparr>objects = [fig0], shown = [fig0]\<rparr>, Inr 0) \<and>
   line toy_engine w0 df0 ''x'' (PStr ''y'') None None None None False None False False =
     (\<lparr>objects = [fig0], shown = []\<rparr>, Inr 0)"
proof -
  have r: "renderer toy_engine fig0 = None" by (simp add: toy_engine_def)
  note th = builders_return_figure
    [of toy_engine df0 "''x''" "PStr ''y''" None None None None False None False fig0 _ w0,
     THEN conjunct1]
  from th [of True] th [of False] toy_line_ok r
  show ?thesis by (simp add: displayed_def w0_def)
qed

section \<open>Properties of the broadcast helper\<close>

lemma shape_of_replicate: "0 < n \<Longrightarrow> shape_of (Axis (replicate n x)) = n # shape_of x"
  by (cases n) auto

lemma shape_of_full: "\<forall>n \<in> set ns. 0 < n \<Longrightarrow> shape_of (full ns v) = ns"
  by (induction ns) (auto simp: shape_of_replicate)

lemma shape_of_broadcast:
  "ax < length shape \<Longrightarrow> \<forall>n \<in> set shape. 0 < n \<Longrightarrow> length a = shape ! ax \<Longrightarrow>
   shape_of (broadcast_along a ax shape) = shape"
proof (induction a ax shape rule: broadcast_along.induct)
  case (1 a ax)
  then show ?case by simp
next
  case (2 a n ns)
  then obtain x xs where a: "a = x # xs" by (cases a) auto
  with 2 show ?case by (simp add: shape_of_full)
next
  case (3 a d n ns)
  then show ?case by (simp add: shape_of_replicate)
qed

lemma valid_index_Cons:
  "valid_index (n # ns) idx \<longleftrightarrow> (\<exists>i is. idx = i # is \<and> i < n \<and> valid_index ns is)"
proof (cases idx)
  case Nil
  then show ?thesis by (simp add: valid_index_def)
next
  case (Cons i "is")
  then show ?thesis
    by (auto simp: valid_index_def nth_Cons split: nat.splits)
qed

lemma index_full: "valid_index ns idx \<Longrightarrow> index (full ns v) idx = Some v"
proof (induction ns arbitrary: idx)
  case Nil
  then show ?case by (simp add: valid_index_def)
next
  case (Cons n ns)
  then show ?case by (auto simp: valid_index_Cons)
qed

lemma index_broadcast:
  "ax < length shape \<Longrightarrow> length a = shape ! ax \<Longrightarrow> valid_index shape idx \<Longrightarrow>
   index (broadcast_along a ax shape) idx = Some (a ! (idx ! ax))"
proof (induction a ax shape arbitrary: idx rule: broadcast_along.induct)
  case (1 a ax)
  then show ?case by simp
next
  case (2 a n ns)
  then show ?case by (auto simp: valid_index_Cons index_full)
next
  case (3 a d n ns)
  then show ?case by (auto simp: valid_index_Cons)
qed

lemma valid_index_update:
  "valid_index shape idx \<Longrightarrow> ax < length shape \<Longrightarrow> j < shape ! ax \<Longrightarrow>
   valid_index shape (idx[ax := j])"
  by (auto simp: valid_index_def nth_list_update)

text \<open>
  Claim C8 (on the model of the spec). For every sequence \<^verbatim>\<open>a\<close>, axis \<open>ax\<close> of the shape
  and shape of positive integers: when \<^verbatim>\<open>len(a) != shape[ax]\<close> the helper fails with a
  shape mismatch; otherwise it returns an array of the requested shape in which, for any
  fixed indices on the other axes, the slice along \<open>ax\<close> is the sequence \<^verbatim>\<open>a\<close>.
\<close>

theorem broadcast_contract:
  assumes "ax < length shape" and "\<forall>n \<in> set shape. 0 < n"
  shows "(length a \<noteq> shape ! ax \<longrightarrow> orient_and_broadcast a ax shape = Inl ShapeMismatch) \<and>
         (length a = shape ! ax \<longrightarrow>
            (\<exists>arr. orient_and_broadcast a ax shape = Inr arr \<and>
                   shape_of arr = shape \<and>
                   (\<forall>idx. valid_index shape idx \<longrightarrow>
                      map (\<lambda>j. index arr (idx[ax := j])) [0..<length a] = map Some a)))"
proof (intro conjI impI)
  assume "length a \<noteq> shape ! ax"
  with assms(1) show "orient_and_broadcast a ax shape = Inl ShapeMismatch"
    by (simp add: orient_and_broadcast_def)
next
  assume len: "length a = shape ! ax"
  have "map (\<lambda>j. index (broadcast_along a ax shape) (idx[ax := j])) [0..<length a] = map Some a"
    if v: "valid_index shape idx" for idx
  proof (rule nth_equalityI)
    show "length (map (\<lambda>j. index (broadcast_along a ax shape) (idx[ax := j])) [0..<length a]) =
        length (map Some a)" by simp
  next
    fix j
    assume "j < length (map (\<lambda>j. index (broadcast_along a ax shape) (idx[ax := j])) [0..<length a])"
    then have j: "j < length a" by simp
    with v assms(1) len have "valid_index shape (idx[ax := j])"
      by (simp add: valid_index_update)
    with assms(1) len have "index (broadcast_along a ax shape) (idx[ax := j]) =
        Some (a ! ((idx[ax := j]) ! ax))" by (rule index_broadcast)
    moreover from v assms(1) have "ax < length idx" by (simp add: valid_index_def)
    ultimately show "map (\<lambda>j. index (broadcast_along a ax shape) (idx[ax := j])) [0..<length a] ! j =
        map Some a ! j" using j by simp
  qed
  with assms len show "\<exists>arr. orient_and_broadcast a ax shape = Inr arr \<and> shape_of arr = shape \<and>
      (\<forall>idx. valid_index shape idx \<longrightarrow>
         map (\<lambda>j. index arr (idx[ax := j])) [0..<length a] = map Some a)"
    by (simp add: orient_and_broadcast_def shape_of_broadcast)
qed

theorem broadcast_contract_witness:
  "(1::nat) < length [2, 3::nat] \<and>
   orient_and_broadcast [10::int, 20, 30] 1 [2, 3] =
     Inr (Axis [Axis [Scalar 10, Scalar 20, Scalar 30], Axis [Scalar 10, Scalar 20, Scalar 30]]) \<and>
   shape_of (Axis [Axis [Scalar 10, Scalar 20, Scalar 30], Axis [Scalar (10::int), Scalar 20, Scalar 30]]) =
     [2, 3] \<and>
   orient_and_broadcast [10::int, 20] 1 [2, 3] = Inl ShapeMismatch"
proof -
  have d: "(1::nat) < length [2, 3::nat]" and p: "\<forall>n \<in> set [2, 3::nat]. 0 < n" by simp_all
  from broadcast_contract [OF d p, of "[10::int, 20]"]
  have "orient_and_broadcast [10::int, 20] 1 [2, 3] = Inl ShapeMismatch" by simp
  moreover have "orient_and_broadcast [10::int, 20, 30] 1 [2, 3] =
     Inr (Axis [Axis [Scalar 10, Scalar 20, Scalar 30], Axis [Scalar 10, Scalar 20, Scalar 30]])"
    by (simp add: orient_and_broadcast_def numeral_2_eq_2 numeral_3_eq_3)
  ultimately show ?thesis by simp
qed

end
